theory Spec2Isabelle
  imports Complex_Main "HOL-Library.Product_Lexorder"
begin

section \<open>Numbers\<close>

text \<open>
  The TypeScript sources compute with \<open>number\<close>, an IEEE 754 double. A double that
  holds an integer below \<open>2 ^ 53\<close> holds it exactly: counts, weights and priorities are
  embedded as \<open>nat\<close> and \<open>int\<close>. Rates, latencies and scores are embedded as the
  \<open>real\<close> value of the double, and every arithmetic operation on them rounds its exact
  result to the nearest double, a tie to the even significand (\<open>fl\<close>): a double has a
  significand of 53 bits, so a number in the binade \<open>[2 ^ e, 2 ^ (e + 1))\<close> is rounded to a
  multiple of \<open>2 ^ (e - 52)\<close>. Overflow, subnormal numbers and \<open>NaN\<close> are outside the
  model. A decimal literal such as \<open>0.7\<close> is the double nearest to it, \<open>fl 0.7\<close>.
  \<open>Math.floor\<close> is \<open>floor\<close>, \<open>Math.sign\<close> is \<open>sgn\<close>, \<open>Math.max\<close>/\<open>Math.min\<close> are
  \<open>max\<close>/\<open>min\<close>, and \<open>Math.round\<close> rounds a tie towards plus infinity; these are
  exact.
\<close>

definition rne :: "real \<Rightarrow> int" where
  "rne y = (let f = \<lfloor>y\<rfloor>; r = y - of_int f
            in if r < 1 / 2 then f else if r > 1 / 2 then f + 1
               else if even f then f else f + 1)"

definition fl :: "real \<Rightarrow> real" where
  "fl x = (if x = 0 then 0
           else let q = 2 powr (of_int \<lfloor>log 2 \<bar>x\<bar>\<rfloor> - 52)
                in sgn x * (of_int (rne (\<bar>x\<bar> / q)) * q))"

definition fadd :: "real \<Rightarrow> real \<Rightarrow> real" where
  "fadd a b = fl (a + b)"

definition fsub :: "real \<Rightarrow> real \<Rightarrow> real" where
  "fsub a b = fl (a - b)"

definition fmul :: "real \<Rightarrow> real \<Rightarrow> real" where
  "fmul a b = fl (a * b)"

definition fdiv :: "real \<Rightarrow> real \<Rightarrow> real" where
  "fdiv a b = fl (a / b)"

definition Math_round :: "real \<Rightarrow> int" where
  "Math_round x = \<lfloor>x + 1 / 2\<rfloor>"

text \<open>The value \<open>Infinity\<close> is returned by \<open>calculateUCB\<close> only.\<close>

datatype JSNumber = Finite real | Infinity

section \<open>Data model (types/schedule)\<close>

datatype CircuitState = Closed | Open | HalfOpen

datatype ScheduleAction = promote | demote | maintain | recover | circuit_penalty | explore

text \<open>
  Display-only strings (\<open>providerName\<close>, \<open>reason\<close>, \<open>adjustmentReason\<close>, the cost
  columns) and timestamps steer no branch of the scheduler and are left out of the records.
\<close>

record ProviderMetrics =
  todayRequests :: nat
  todayAvgResponseTime :: real
  todayErrorRate :: real
  yesterdayRequests :: nat
  yesterdayAvgResponseTime :: real
  yesterdayErrorRate :: real

record WindowStats =
  requests :: nat
  errorRate :: real
  avgResponseTime :: real

record WeightedStats = WindowStats +
  performanceScore :: real

record MultiWindowMetrics =
  shortTerm :: WindowStats
  mediumTerm :: WindowStats
  longTerm :: WindowStats
  weighted :: WeightedStats

record WeightPriority =
  weight :: int
  priority :: int

text \<open>The provider columns every query selects; the source's field \<open>id\<close> is \<open>id_p\<close>.\<close>

record ProviderCore = WeightPriority +
  id_p :: nat
  baseWeight :: "int option"
  basePriority :: "int option"

record Provider = ProviderCore +
  isEnabled :: bool
  isDeleted :: bool

record ProviderMultiWindowAnalytics = ProviderCore +
  metrics :: MultiWindowMetrics
  circuitState :: CircuitState

record ProviderAnalytics = ProviderCore +
  pa_metrics :: ProviderMetrics
  pa_performanceScore :: real
  pa_confidence :: int
  pa_circuitState :: CircuitState
  isAdjusted :: bool

record MABDecision =
  mab_providerId :: nat
  ucbValue :: JSNumber
  isExploration :: bool
  currentWeight :: int
  currentPriority :: int
  suggestedWeight :: int
  suggestedPriority :: int
  mab_metrics :: MultiWindowMetrics
  mab_confidence :: int

record StateBefore = WeightPriority +
  performanceScore_before :: real
  circuitState_before :: CircuitState

record StateAfter = WeightPriority +
  performanceScore_after :: real

record ScheduleDecision =
  providerId :: nat
  beforeState :: StateBefore
  afterState :: StateAfter
  decision_metrics :: ProviderMetrics
  action :: ScheduleAction
  confidence :: int
  baseline :: WeightPriority

record ScheduleSummary =
  promoted :: nat
  demoted :: nat
  maintained :: nat
  recovered :: nat
  circuitOpen :: nat

record ScheduleLog =
  executed_by :: string
  dry_run :: bool
  total_providers :: nat
  analyzed_providers :: nat
  affected_providers :: nat
  log_decisions :: "ScheduleDecision list"
  log_summary :: ScheduleSummary

record MABConfig =
  explorationRate :: int
  minSampleSize :: int
  circuitRecoveryWeightPercent :: int
  maxWeightAdjustmentPercent :: int

section \<open>PerformanceScorer\<close>

definition calculateScore :: "ProviderMetrics \<Rightarrow> real" where
  "calculateScore m =
     (let successRate = fsub 1 (todayErrorRate m);
          successScore = max 0 (min 60 (fmul successRate 60));
          normalizedTime = min (fdiv (todayAvgResponseTime m) 10000) 1;
          speedScore = max 0 (min 40 (fmul (fsub 1 normalizedTime) 40));
          totalScore = fadd successScore speedScore
      in fdiv (real_of_int (Math_round (fmul totalScore 10))) 10)"

definition calculateConfidence :: "real \<Rightarrow> real \<Rightarrow> int" where
  "calculateConfidence sampleSize minSize =
     (if sampleSize \<ge> fmul minSize 5 then 100
      else if sampleSize \<ge> fmul minSize 2 then 80
      else if sampleSize \<ge> minSize then 50
      else if sampleSize > 0 then Math_round (fmul (fdiv sampleSize minSize) 50)
      else 0)"

section \<open>Window fusion (getProviderMultiWindowAnalytics, the row mapping)\<close>

definition fuseWindows :: "WindowStats \<Rightarrow> WindowStats \<Rightarrow> WindowStats \<Rightarrow> MultiWindowMetrics" where
  "fuseWindows st mt lt =
     (let totalRequests = requests st + requests mt + requests lt;
          fused =
            (if totalRequests = 0 then (0, 0)
             else
               let shortWeight = fdiv (real (requests st)) (real totalRequests);
                   mediumWeight = fdiv (real (requests mt)) (real totalRequests);
                   longWeight = fdiv (real (requests lt)) (real totalRequests);
                   decayShort = fl (6 / 10);
                   decayMedium = fl (3 / 10);
                   decayLong = fl (1 / 10);
                   normalizedShort = fmul shortWeight decayShort;
                   normalizedMedium = fmul mediumWeight decayMedium;
                   normalizedLong = fmul longWeight decayLong;
                   totalWeight = fadd (fadd normalizedShort normalizedMedium) normalizedLong
               in if totalWeight > 0
                  then (fdiv (fadd (fadd (fmul (errorRate st) normalizedShort)
                                         (fmul (errorRate mt) normalizedMedium))
                                   (fmul (errorRate lt) normalizedLong)) totalWeight,
                        fdiv (fadd (fadd (fmul (avgResponseTime st) normalizedShort)
                                         (fmul (avgResponseTime mt) normalizedMedium))
                                   (fmul (avgResponseTime lt) normalizedLong)) totalWeight)
                  else (0, 0));
          weightedErrorRate = fst fused;
          weightedAvgResponseTime = snd fused;
          score = calculateScore
            \<lparr>todayRequests = totalRequests,
             todayAvgResponseTime = weightedAvgResponseTime,
             todayErrorRate = weightedErrorRate,
             yesterdayRequests = 0,
             yesterdayAvgResponseTime = 0,
             yesterdayErrorRate = 0\<rparr>
      in \<lparr>shortTerm = st, mediumTerm = mt, longTerm = lt,
          weighted = \<lparr>requests = totalRequests, errorRate = weightedErrorRate,
                      avgResponseTime = weightedAvgResponseTime,
                      performanceScore = score\<rparr>\<rparr>)"

section \<open>MABScheduler\<close>

definition calculateUCB :: "real \<Rightarrow> nat \<Rightarrow> nat \<Rightarrow> JSNumber" where
  "calculateUCB score providerRequests totalRequests =
     (if providerRequests = 0 then Infinity
      else if totalRequests = 0 then Finite score
      else
        let normalizedScore = fdiv score 100;
            explorationBonus =
              fl (sqrt (fdiv (fmul 2 (fl (ln (real totalRequests)))) (real providerRequests)))
        in Finite (fadd normalizedScore explorationBonus))"

text \<open>
  \<open>Math.sqrt\<close> rounds correctly; \<open>Math.log\<close> is taken to do so as well. The UCB value
  is recorded in the decision and steers nothing.

  \<open>calculateAdjustment\<close> returns the suggested weight and priority (the reason text is
  not modelled). The unused argument \<open>ucbValue\<close> is kept.
\<close>

definition calculateAdjustment ::
  "ProviderMultiWindowAnalytics \<Rightarrow> JSNumber \<Rightarrow> int \<Rightarrow> int \<Rightarrow> MABConfig \<Rightarrow> int \<times> int" where
  "calculateAdjustment provider ucb baseW baseP config =
     (let score = performanceScore (weighted (metrics provider));
          reqs = requests (weighted (metrics provider))
      in
      if circuitState provider = Open then (0, 999)
      else if circuitState provider = HalfOpen then
        (let recoveryWeight =
               \<lfloor>fmul (real_of_int baseW)
                  (fdiv (real_of_int (circuitRecoveryWeightPercent config)) 100)\<rfloor>
         in (max 1 recoveryWeight, baseP + 1))
      else if int reqs < minSampleSize config then
        (max 1 \<lfloor>fmul (real_of_int baseW) (fl (1 / 2))\<rfloor>, baseP)
      else
        let curW = weight provider;
            pct = real_of_int (maxWeightAdjustmentPercent config);
            target =
              (if score \<ge> 85 then
                 (min 100 (curW + \<lfloor>fmul (real_of_int baseW) (fdiv pct 100)\<rfloor>),
                  max 0 (baseP - 1))
               else if score \<ge> 70 then (baseW, baseP)
               else if score \<ge> 50 then
                 (max 1 (curW - \<lfloor>fmul (real_of_int baseW) (fdiv pct 200)\<rfloor>), baseP + 1)
               else
                 (max 1 (curW - \<lfloor>fmul (real_of_int baseW) (fdiv pct 100)\<rfloor>), baseP + 2));
            targetWeight = fst target;
            targetPriority = snd target;
            maxChange = \<lfloor>fmul (real_of_int curW) (fdiv pct 100)\<rfloor>;
            weightDelta = targetWeight - curW;
            suggested =
              (if \<bar>weightDelta\<bar> > maxChange then curW + sgn weightDelta * maxChange
               else targetWeight)
        in (max 1 (min 100 suggested), max 0 targetPriority))"

definition MAB_calculateConfidence :: "nat \<Rightarrow> int \<Rightarrow> int" where
  "MAB_calculateConfidence reqs minSample =
     (if reqs = 0 then 0
      else if int reqs \<ge> minSample * 2 then 100
      else min 100 \<lfloor>fmul (fdiv (real reqs) (real_of_int (minSample * 2))) 100\<rfloor>)"

definition MAB_decide :: "nat \<Rightarrow> MABConfig \<Rightarrow> ProviderMultiWindowAnalytics \<Rightarrow> MABDecision" where
  "MAB_decide totalRequests config provider =
     (let ucb = calculateUCB (performanceScore (weighted (metrics provider)))
                  (requests (weighted (metrics provider))) totalRequests;
          baseW = (case baseWeight provider of Some b \<Rightarrow> b | None \<Rightarrow> weight provider);
          baseP = (case basePriority provider of Some b \<Rightarrow> b | None \<Rightarrow> priority provider);
          adj = calculateAdjustment provider ucb baseW baseP config;
          conf = MAB_calculateConfidence (requests (weighted (metrics provider)))
                   (minSampleSize config);
          isExpl = (int (requests (weighted (metrics provider))) < minSampleSize config)
      in \<lparr>mab_providerId = id_p provider, ucbValue = ucb, isExploration = isExpl,
          currentWeight = weight provider, currentPriority = priority provider,
          suggestedWeight = fst adj, suggestedPriority = snd adj,
          mab_metrics = metrics provider, mab_confidence = conf\<rparr>)"

definition MAB_generateDecisions ::
  "ProviderMultiWindowAnalytics list \<Rightarrow> MABConfig \<Rightarrow> MABDecision list" where
  "MAB_generateDecisions ps config =
     (let totalRequests = foldl (\<lambda>sum p. sum + requests (weighted (metrics p))) 0 ps
      in map (MAB_decide totalRequests config) ps)"

section \<open>AutoScheduler: the rule policy\<close>

record ScheduleConfig =
  enableAutoSchedule :: bool
  scheduleTime :: string
  sc_minSampleSize :: int
  scheduleWindowHours :: int

definition applyStrategy ::
  "Provider \<Rightarrow> ProviderAnalytics \<Rightarrow> CircuitState \<Rightarrow> ScheduleConfig \<Rightarrow> ScheduleDecision" where
  "applyStrategy provider analytics cs config =
     (let score = pa_performanceScore analytics;
          conf = pa_confidence analytics;
          baseW = (case baseWeight provider of Some b \<Rightarrow> b | None \<Rightarrow> weight provider);
          baseP = (case basePriority provider of Some b \<Rightarrow> b | None \<Rightarrow> priority provider);
          before = \<lparr>weight = weight provider, priority = priority provider,
                    performanceScore_before = score, circuitState_before = cs\<rparr>;
          decide = (\<lambda>w p a.
             \<lparr>providerId = id_p provider, beforeState = before,
              afterState = \<lparr>weight = w, priority = p, performanceScore_after = score\<rparr>,
              decision_metrics = pa_metrics analytics, action = a, confidence = conf,
              baseline = \<lparr>weight = baseW, priority = baseP\<rparr>\<rparr>)
      in
      if conf < 50 then decide (weight provider) (priority provider) maintain
      else if cs = Open then
        decide (max 1 \<lfloor>fmul (real_of_int (weight provider)) (fl (7 / 10))\<rfloor>)
          (priority provider + 2) circuit_penalty
      else if score > 80 \<and> (weight provider < baseW \<or> priority provider > baseP) then
        decide baseW baseP recover
      else if score > 85 then
        decide (min 100 \<lfloor>fmul (real_of_int (weight provider)) (fl (12 / 10))\<rfloor>)
          (max 0 (priority provider - 1)) promote
      else if score < 60 then
        decide (max 1 \<lfloor>fmul (real_of_int (weight provider)) (fl (8 / 10))\<rfloor>)
          (priority provider + 1) demote
      else decide (weight provider) (priority provider) maintain)"

section \<open>Stores and collaborators\<close>

text \<open>
  The scheduler runs against a database and a circuit breaker. The mutable part, the
  provider table and the schedule-log table, is the \<open>Store\<close> that every operation takes
  and returns. What a cycle only reads is the \<open>Env\<close>: the outcome of
  \<open>getSystemSettings\<close> (the settings row, or the error it throws), the request
  statistics that the SQL aggregates per provider and window, the answer of
  \<open>getCircuitState\<close> for each provider (the circuit breaker is not among the sources),
  and which database calls throw. A thrown \<open>Error\<close> is the \<open>Inl\<close> of its message; the
  store is returned beside it, since an exception does not undo the writes made before it.
\<close>

record SystemSettings =
  shortTermWindowMinutes :: "nat option"
  mediumTermWindowMinutes :: "nat option"
  longTermWindowMinutes :: "nat option"

record RequestStats =
  request_count :: nat
  avg_response_time :: int
  error_count :: nat

record Env =
  settingsResult :: "string + SystemSettings"
  queryError :: "string option"
  windowStats :: "nat \<Rightarrow> nat \<Rightarrow> RequestStats"
  todayStats :: "nat \<Rightarrow> RequestStats"
  yesterdayStats :: "nat \<Rightarrow> RequestStats"
  getCircuitState :: "nat \<Rightarrow> CircuitState"
  updateError :: "nat \<Rightarrow> string option"
  logError :: "string option"

record Store =
  providers :: "Provider list"
  scheduleLogs :: "ScheduleLog list"

record ProviderUpdate =
  upd_weight :: "int option"
  upd_priority :: "int option"
  upd_base_weight :: "int option"
  upd_base_priority :: "int option"

text \<open>
  Modelled from the spec: \<open>updateProvider\<close> of the provider repository, which is not
  among the sources: \<open>update(id, {weight?, priority?, baseWeight?, basePriority?,
  lastScheduleTime?}) -> Provider|NotFound\<close>. The fields given overwrite the columns of
  the row with that id; a missing row changes nothing; a persistence failure throws.
\<close>

definition applyUpdate :: "ProviderUpdate \<Rightarrow> Provider \<Rightarrow> Provider" where
  "applyUpdate u p =
     p\<lparr>weight := (case upd_weight u of Some w \<Rightarrow> w | None \<Rightarrow> weight p),
       priority := (case upd_priority u of Some q \<Rightarrow> q | None \<Rightarrow> priority p),
       baseWeight := (case upd_base_weight u of Some b \<Rightarrow> Some b | None \<Rightarrow> baseWeight p),
       basePriority :=
         (case upd_base_priority u of Some b \<Rightarrow> Some b | None \<Rightarrow> basePriority p)\<rparr>"

definition updateProvider ::
  "Env \<Rightarrow> nat \<Rightarrow> ProviderUpdate \<Rightarrow> Store \<Rightarrow> (string + unit) \<times> Store" where
  "updateProvider env i u s =
     (case updateError env i of
        Some e \<Rightarrow> (Inl e, s)
      | None \<Rightarrow>
          (Inr (), s\<lparr>providers :=
                       map (\<lambda>p. if id_p p = i then applyUpdate u p else p) (providers s)\<rparr>))"

text \<open>
  Modelled from the spec: \<open>findProviderList\<close> of the provider repository, which is not
  among the sources: \<open>list(enabledOnly) -> Provider[]\<close>, here the page of \<open>limit\<close>
  rows from \<open>offset\<close> of the providers that are not deleted.
\<close>

definition findProviderList :: "Env \<Rightarrow> nat \<Rightarrow> nat \<Rightarrow> Store \<Rightarrow> string + Provider list" where
  "findProviderList env limit offset s =
     (case queryError env of
        Some e \<Rightarrow> Inl e
      | None \<Rightarrow> Inr (take limit (drop offset (filter (\<lambda>p. \<not> isDeleted p) (providers s)))))"

text \<open>\<open>createScheduleLog\<close> inserts one row and returns its id, or rethrows.\<close>

definition createScheduleLog :: "Env \<Rightarrow> ScheduleLog \<Rightarrow> Store \<Rightarrow> (string + nat) \<times> Store" where
  "createScheduleLog env entry s =
     (case logError env of
        Some e \<Rightarrow> (Inl e, s)
      | None \<Rightarrow> (Inr (Suc (length (scheduleLogs s))),
                 s\<lparr>scheduleLogs := scheduleLogs s @ [entry]\<rparr>))"

text \<open>
  The SQL of both analytics queries selects the providers that are enabled and not
  deleted, ordered by priority ascending and weight descending, joined with the request
  statistics of each window; the error rate of a window is \<open>error_count / request_count\<close>
  (a division of doubles in the database), or 0 without requests.
\<close>

definition selectEnabled :: "Store \<Rightarrow> Provider list" where
  "selectEnabled s =
     sort_key (\<lambda>p. (priority p, - weight p))
       (filter (\<lambda>p. \<not> isDeleted p \<and> isEnabled p) (providers s))"

definition windowOf :: "RequestStats \<Rightarrow> WindowStats" where
  "windowOf r =
     \<lparr>requests = request_count r,
      errorRate = (if request_count r > 0
                   then fdiv (real (error_count r)) (real (request_count r)) else 0),
      avgResponseTime = real_of_int (avg_response_time r)\<rparr>"

definition getProviderMultiWindowAnalytics ::
  "Env \<Rightarrow> nat \<Rightarrow> nat \<Rightarrow> nat \<Rightarrow> Store \<Rightarrow> string + ProviderMultiWindowAnalytics list" where
  "getProviderMultiWindowAnalytics env shortMin mediumMin longMin s =
     (case queryError env of
        Some e \<Rightarrow> Inl e
      | None \<Rightarrow>
          Inr (map (\<lambda>p.
                 \<lparr>weight = weight p, priority = priority p, id_p = id_p p,
                  baseWeight = baseWeight p, basePriority = basePriority p,
                  metrics = fuseWindows (windowOf (windowStats env shortMin (id_p p)))
                              (windowOf (windowStats env mediumMin (id_p p)))
                              (windowOf (windowStats env longMin (id_p p))),
                  circuitState = getCircuitState env (id_p p)\<rparr>)
               (selectEnabled s)))"

definition getProviderAnalytics :: "Env \<Rightarrow> Store \<Rightarrow> string + ProviderAnalytics list" where
  "getProviderAnalytics env s =
     (case queryError env of
        Some e \<Rightarrow> Inl e
      | None \<Rightarrow>
          Inr (map (\<lambda>p.
                 let today = windowOf (todayStats env (id_p p));
                     yesterday = windowOf (yesterdayStats env (id_p p));
                     m = \<lparr>todayRequests = requests today,
                          todayAvgResponseTime = avgResponseTime today,
                          todayErrorRate = errorRate today,
                          yesterdayRequests = requests yesterday,
                          yesterdayAvgResponseTime = avgResponseTime yesterday,
                          yesterdayErrorRate = errorRate yesterday\<rparr>
                 in \<lparr>weight = weight p, priority = priority p, id_p = id_p p,
                     baseWeight = baseWeight p, basePriority = basePriority p,
                     pa_metrics = m,
                     pa_performanceScore = calculateScore m,
                     pa_confidence = calculateConfidence (real (requests today)) 10,
                     pa_circuitState = getCircuitState env (id_p p),
                     isAdjusted =
                       ((baseWeight p \<noteq> None \<and> Some (weight p) \<noteq> baseWeight p)
                        \<or> (basePriority p \<noteq> None \<and> Some (priority p) \<noteq> basePriority p))\<rparr>)
               (selectEnabled s)))"

text \<open>
  Both \<open>applyDecisions\<close> pass the same fields to \<open>updateProvider\<close>: the new weight and
  priority, and the baseline columns when the decision's baseline equals its before-state.
\<close>

definition decisionUpdate :: "ScheduleDecision \<Rightarrow> ProviderUpdate" where
  "decisionUpdate d =
     \<lparr>upd_weight = Some (weight (afterState d)),
      upd_priority = Some (priority (afterState d)),
      upd_base_weight =
        (if weight (baseline d) = weight (beforeState d)
         then Some (weight (beforeState d)) else None),
      upd_base_priority =
        (if priority (baseline d) = priority (beforeState d)
         then Some (priority (beforeState d)) else None)\<rparr>"

definition zeroSummary :: ScheduleSummary where
  "zeroSummary = \<lparr>promoted = 0, demoted = 0, maintained = 0, recovered = 0, circuitOpen = 0\<rparr>"

definition affectedCount :: "ScheduleSummary \<Rightarrow> nat" where
  "affectedCount sm = promoted sm + demoted sm + recovered sm"

definition scheduleLogOf ::
  "string \<Rightarrow> bool \<Rightarrow> ScheduleDecision list \<Rightarrow> ScheduleSummary \<Rightarrow> ScheduleLog" where
  "scheduleLogOf who dryRun ds sm =
     \<lparr>executed_by = who, dry_run = dryRun, total_providers = length ds,
      analyzed_providers = length (filter (\<lambda>d. confidence d \<ge> 50) ds),
      affected_providers = affectedCount sm,
      log_decisions = ds, log_summary = sm\<rparr>"

record ResultCore =
  ok :: bool
  totalProviders :: nat
  affectedProviders :: nat
  decisions :: "ScheduleDecision list"
  summary :: ScheduleSummary
  error :: "string option"

record ScheduleResult = ResultCore +
  logId :: "nat option"
  analyzedProviders :: nat

section \<open>RealtimeDecisionEngine\<close>

definition convertToScheduleDecision :: "MABDecision \<Rightarrow> ScheduleDecision" where
  "convertToScheduleDecision mab =
     (let weightChange = suggestedWeight mab - currentWeight mab;
          reqs = requests (weighted (mab_metrics mab));
          act =
            (if reqs = 0 \<or> isExploration mab then explore
             else if weightChange > 0 then promote
             else if weightChange < 0 then demote
             else if currentWeight mab < (if reqs > 0 then currentWeight mab else 1)
               then recover
             else maintain)
      in \<lparr>providerId = mab_providerId mab,
          beforeState = \<lparr>weight = currentWeight mab, priority = currentPriority mab,
                         performanceScore_before = performanceScore (weighted (mab_metrics mab)),
                         circuitState_before = Closed\<rparr>,
          afterState = \<lparr>weight = suggestedWeight mab, priority = suggestedPriority mab,
                        performanceScore_after = performanceScore (weighted (mab_metrics mab))\<rparr>,
          decision_metrics =
            \<lparr>todayRequests = reqs,
             todayAvgResponseTime = avgResponseTime (weighted (mab_metrics mab)),
             todayErrorRate = errorRate (weighted (mab_metrics mab)),
             yesterdayRequests = 0, yesterdayAvgResponseTime = 0, yesterdayErrorRate = 0\<rparr>,
          action = act, confidence = mab_confidence mab,
          baseline = \<lparr>weight = currentWeight mab, priority = currentPriority mab\<rparr>\<rparr>)"

definition convertToScheduleDecisions :: "MABDecision list \<Rightarrow> ScheduleDecision list" where
  "convertToScheduleDecisions mabDecisions = map convertToScheduleDecision mabDecisions"

definition Realtime_count :: "ScheduleSummary \<Rightarrow> ScheduleDecision \<Rightarrow> ScheduleSummary" where
  "Realtime_count acc d =
     (case action d of
        promote \<Rightarrow> acc\<lparr>promoted := promoted acc + 1\<rparr>
      | demote \<Rightarrow> acc\<lparr>demoted := demoted acc + 1\<rparr>
      | maintain \<Rightarrow> acc\<lparr>maintained := maintained acc + 1\<rparr>
      | recover \<Rightarrow> acc\<lparr>recovered := recovered acc + 1\<rparr>
      | circuit_penalty \<Rightarrow> acc\<lparr>circuitOpen := circuitOpen acc + 1\<rparr>
      | explore \<Rightarrow> acc\<lparr>maintained := maintained acc + 1\<rparr>)"

definition Realtime_calculateSummary :: "ScheduleDecision list \<Rightarrow> ScheduleSummary" where
  "Realtime_calculateSummary ds = foldl Realtime_count zeroSummary ds"

text \<open>The update loop catches the failure of one update and goes on with the next.\<close>

fun Realtime_updateAll :: "Env \<Rightarrow> ScheduleDecision list \<Rightarrow> Store \<Rightarrow> Store" where
  "Realtime_updateAll env [] s = s"
| "Realtime_updateAll env (d # ds) s =
     (case updateProvider env (providerId d) (decisionUpdate d) s of
        (Inl e, s') \<Rightarrow> Realtime_updateAll env ds s'
      | (Inr u, s') \<Rightarrow> Realtime_updateAll env ds s')"

definition Realtime_applyDecisions :: "Env \<Rightarrow> ScheduleDecision list \<Rightarrow> Store \<Rightarrow> Store" where
  "Realtime_applyDecisions env ds s =
     Realtime_updateAll env
       (filter (\<lambda>d. weight (afterState d) \<noteq> weight (beforeState d)
                  \<or> priority (afterState d) \<noteq> priority (beforeState d)) ds) s"

definition Realtime_logExecution ::
  "Env \<Rightarrow> ScheduleDecision list \<Rightarrow> ScheduleSummary \<Rightarrow> bool \<Rightarrow> Store \<Rightarrow> Store" where
  "Realtime_logExecution env ds sm dryRun s =
     (case createScheduleLog env (scheduleLogOf ''realtime-auto'' dryRun ds sm) s of
        (Inl e, s') \<Rightarrow> s'
      | (Inr i, s') \<Rightarrow> s')"

definition Realtime_failed :: "string \<Rightarrow> ResultCore" where
  "Realtime_failed e =
     \<lparr>ok = False, totalProviders = 0, affectedProviders = 0, decisions = [],
      summary = zeroSummary, error = Some e\<rparr>"

definition Realtime_execute :: "Env \<Rightarrow> MABConfig \<Rightarrow> bool \<Rightarrow> Store \<Rightarrow> ResultCore \<times> Store" where
  "Realtime_execute env config dryRun s =
     (case settingsResult env of
        Inl e \<Rightarrow> (Realtime_failed e, s)
      | Inr settings \<Rightarrow>
          (case getProviderMultiWindowAnalytics env
                  (case shortTermWindowMinutes settings of Some n \<Rightarrow> n | None \<Rightarrow> 60)
                  (case mediumTermWindowMinutes settings of Some n \<Rightarrow> n | None \<Rightarrow> 360)
                  (case longTermWindowMinutes settings of Some n \<Rightarrow> n | None \<Rightarrow> 1440) s of
             Inl e \<Rightarrow> (Realtime_failed e, s)
           | Inr ps \<Rightarrow>
               if length ps = 0 then
                 (\<lparr>ok = True, totalProviders = 0, affectedProviders = 0, decisions = [],
                   summary = zeroSummary, error = None\<rparr>, s)
               else
                 let mabDecisions = MAB_generateDecisions ps config;
                     ds = convertToScheduleDecisions mabDecisions;
                     sm = Realtime_calculateSummary ds;
                     s1 = (if \<not> dryRun then Realtime_applyDecisions env ds s else s);
                     s2 = Realtime_logExecution env ds sm dryRun s1
                 in (\<lparr>ok = True, totalProviders = length ps,
                      affectedProviders = affectedCount sm, decisions = ds,
                      summary = sm, error = None\<rparr>, s2)))"

section \<open>AutoScheduler: one cycle\<close>

definition Auto_getConfig :: ScheduleConfig where
  "Auto_getConfig =
     \<lparr>enableAutoSchedule = False, scheduleTime = ''02:00'', sc_minSampleSize = 10,
      scheduleWindowHours = 24\<rparr>"

definition Auto_generateDecisions ::
  "Env \<Rightarrow> ScheduleConfig \<Rightarrow> Store \<Rightarrow> string + ScheduleDecision list" where
  "Auto_generateDecisions env config s =
     (case findProviderList env 1000 0 s of
        Inl e \<Rightarrow> Inl e
      | Inr ps \<Rightarrow>
          (case getProviderAnalytics env s of
             Inl e \<Rightarrow> Inl e
           | Inr analyticsData \<Rightarrow>
               let analyticsMap = map_of (rev (map (\<lambda>a. (id_p a, a)) analyticsData))
               in Inr (concat (map (\<lambda>p.
                         if \<not> isEnabled p then []
                         else (case analyticsMap (id_p p) of
                                 None \<Rightarrow> []
                               | Some a \<Rightarrow>
                                   [applyStrategy p a (getCircuitState env (id_p p)) config]))
                       ps))))"

definition Auto_count :: "ScheduleSummary \<Rightarrow> ScheduleDecision \<Rightarrow> ScheduleSummary" where
  "Auto_count acc d =
     (case action d of
        promote \<Rightarrow> acc\<lparr>promoted := promoted acc + 1\<rparr>
      | demote \<Rightarrow> acc\<lparr>demoted := demoted acc + 1\<rparr>
      | maintain \<Rightarrow> acc\<lparr>maintained := maintained acc + 1\<rparr>
      | recover \<Rightarrow> acc\<lparr>recovered := recovered acc + 1\<rparr>
      | circuit_penalty \<Rightarrow> acc\<lparr>circuitOpen := circuitOpen acc + 1\<rparr>
      | explore \<Rightarrow> acc)"

definition Auto_calculateSummary :: "ScheduleDecision list \<Rightarrow> ScheduleSummary" where
  "Auto_calculateSummary ds = foldl Auto_count zeroSummary ds"

text \<open>The update loop has no handler: the first failing update ends it.\<close>

fun Auto_updateAll :: "Env \<Rightarrow> ScheduleDecision list \<Rightarrow> Store \<Rightarrow> (string + unit) \<times> Store" where
  "Auto_updateAll env [] s = (Inr (), s)"
| "Auto_updateAll env (d # ds) s =
     (case updateProvider env (providerId d) (decisionUpdate d) s of
        (Inl e, s') \<Rightarrow> (Inl e, s')
      | (Inr u, s') \<Rightarrow> Auto_updateAll env ds s')"

definition Auto_applyDecisions ::
  "Env \<Rightarrow> ScheduleDecision list \<Rightarrow> Store \<Rightarrow> (string + unit) \<times> Store" where
  "Auto_applyDecisions env ds s =
     Auto_updateAll env (filter (\<lambda>d. action d \<noteq> maintain \<and> confidence d \<ge> 50) ds) s"

definition Auto_logExecution ::
  "Env \<Rightarrow> ScheduleDecision list \<Rightarrow> ScheduleSummary \<Rightarrow> string \<Rightarrow> bool \<Rightarrow> Store
     \<Rightarrow> (string + nat) \<times> Store" where
  "Auto_logExecution env ds sm executedBy dryRun s =
     createScheduleLog env (scheduleLogOf executedBy dryRun ds sm) s"

definition Auto_failed :: "string \<Rightarrow> ScheduleResult" where
  "Auto_failed e =
     \<lparr>ok = False, totalProviders = 0, affectedProviders = 0, decisions = [],
      summary = zeroSummary, error = Some e, logId = None, analyzedProviders = 0\<rparr>"

definition Auto_execute ::
  "Env \<Rightarrow> bool \<Rightarrow> string \<Rightarrow> ScheduleConfig option \<Rightarrow> Store \<Rightarrow> ScheduleResult \<times> Store" where
  "Auto_execute env dryRun executedBy config s =
     (let scheduleConfig = (case config of Some c \<Rightarrow> c | None \<Rightarrow> Auto_getConfig)
      in (case Auto_generateDecisions env scheduleConfig s of
            Inl e \<Rightarrow> (Auto_failed e, s)
          | Inr ds \<Rightarrow>
              (let sm = Auto_calculateSummary ds;
                   applied = (if \<not> dryRun \<and> length ds > 0 then Auto_applyDecisions env ds s
                              else (Inr (), s))
               in (case applied of
                     (Inl e, s1) \<Rightarrow> (Auto_failed e, s1)
                   | (Inr u, s1) \<Rightarrow>
                       (case Auto_logExecution env ds sm executedBy dryRun s1 of
                          (Inl e, s2) \<Rightarrow> (Auto_failed e, s2)
                        | (Inr i, s2) \<Rightarrow>
                            (\<lparr>ok = True, totalProviders = length ds,
                              affectedProviders = affectedCount sm, decisions = ds,
                              summary = sm, error = None, logId = Some i,
                              analyzedProviders =
                                length (filter (\<lambda>d. confidence d \<ge> 50) ds)\<rparr>, s2))))))"

section \<open>The window fusion as specified\<close>

text \<open>
  The fusion as the design describes it, in the arithmetic of the code: the request share
  of each window times its decay weight (0.6, 0.3, 0.1) is that window's decayed weight;
  the values of the three windows are blended with these weights and the blend is
  renormalised by the sum of the three decayed weights.
\<close>

definition spec_blend :: "(WindowStats \<Rightarrow> real) \<Rightarrow> WindowStats \<Rightarrow> WindowStats \<Rightarrow> WindowStats \<Rightarrow> real" where
  "spec_blend f st mt lt =
     (let total = real (requests st + requests mt + requests lt);
          dShort = fmul (fdiv (real (requests st)) total) (fl (6 / 10));
          dMedium = fmul (fdiv (real (requests mt)) total) (fl (3 / 10));
          dLong = fmul (fdiv (real (requests lt)) total) (fl (1 / 10));
          dSum = fadd (fadd dShort dMedium) dLong
      in fdiv (fadd (fadd (fmul (f st) dShort) (fmul (f mt) dMedium)) (fmul (f lt) dLong)) dSum)"

section \<open>Sample inputs\<close>

definition slowFailing :: ProviderMetrics where
  "slowFailing = \<lparr>todayRequests = 40, todayAvgResponseTime = 2500, todayErrorRate = 1 / 4,
     yesterdayRequests = 0, yesterdayAvgResponseTime = 0, yesterdayErrorRate = 0\<rparr>"

definition idleWindow :: WindowStats where
  "idleWindow = \<lparr>requests = 0, errorRate = 0, avgResponseTime = 0\<rparr>"

definition busyWindow :: WindowStats where
  "busyWindow = \<lparr>requests = 20, errorRate = 0, avgResponseTime = 0\<rparr>"

definition shortSample :: WindowStats where
  "shortSample = windowOf \<lparr>request_count = 10, avg_response_time = 1000, error_count = 5\<rparr>"

definition mediumSample :: WindowStats where
  "mediumSample = windowOf \<lparr>request_count = 20, avg_response_time = 2000, error_count = 4\<rparr>"

definition longSample :: WindowStats where
  "longSample = windowOf \<lparr>request_count = 30, avg_response_time = 3000, error_count = 3\<rparr>"

definition sampleConfig :: MABConfig where
  "sampleConfig = \<lparr>explorationRate = 15, minSampleSize = 10,
     circuitRecoveryWeightPercent = 30, maxWeightAdjustmentPercent = 10\<rparr>"

definition analyticsOf :: "nat \<Rightarrow> int \<Rightarrow> int \<Rightarrow> int option \<Rightarrow> int option \<Rightarrow> CircuitState
    \<Rightarrow> ProviderMultiWindowAnalytics" where
  "analyticsOf i w q bw bq cs =
     \<lparr>weight = w, priority = q, id_p = i, baseWeight = bw, basePriority = bq,
      metrics = fuseWindows busyWindow busyWindow busyWindow, circuitState = cs\<rparr>"

definition ruleProvider :: Provider where
  "ruleProvider = \<lparr>weight = 10, priority = 0, id_p = 1, baseWeight = None,
     basePriority = None, isEnabled = True, isDeleted = False\<rparr>"

definition healthyToday :: ProviderMetrics where
  "healthyToday = \<lparr>todayRequests = 50, todayAvgResponseTime = 0, todayErrorRate = 0,
     yesterdayRequests = 0, yesterdayAvgResponseTime = 0, yesterdayErrorRate = 0\<rparr>"

definition ruleAnalytics :: ProviderAnalytics where
  "ruleAnalytics = \<lparr>weight = 10, priority = 0, id_p = 1, baseWeight = None,
     basePriority = None, pa_metrics = healthyToday, pa_performanceScore = 100,
     pa_confidence = 100, pa_circuitState = Open, isAdjusted = False\<rparr>"

definition busyStats :: RequestStats where
  "busyStats = \<lparr>request_count = 20, avg_response_time = 0, error_count = 0\<rparr>"

definition sampleSettings :: SystemSettings where
  "sampleSettings = \<lparr>shortTermWindowMinutes = None, mediumTermWindowMinutes = None,
     longTermWindowMinutes = None\<rparr>"

definition sampleEnv :: Env where
  "sampleEnv = \<lparr>settingsResult = Inr sampleSettings, queryError = None,
     windowStats = (\<lambda>minutes i. busyStats), todayStats = (\<lambda>i. busyStats),
     yesterdayStats = (\<lambda>i. busyStats), getCircuitState = (\<lambda>i. Closed),
     updateError = (\<lambda>i. None), logError = None\<rparr>"

definition failingEnv :: Env where
  "failingEnv = sampleEnv\<lparr>updateError := (\<lambda>i. if i = 1 then Some ''update failed'' else None)\<rparr>"

definition logFailingEnv :: Env where
  "logFailingEnv = sampleEnv\<lparr>logError := Some ''log failed''\<rparr>"

definition providerOf :: "nat \<Rightarrow> int \<Rightarrow> int \<Rightarrow> int option \<Rightarrow> int option \<Rightarrow> Provider" where
  "providerOf i w q bw bq =
     \<lparr>weight = w, priority = q, id_p = i, baseWeight = bw, basePriority = bq,
      isEnabled = True, isDeleted = False\<rparr>"

definition oneProvider :: Store where
  "oneProvider = \<lparr>providers = [providerOf 1 20 5 (Some 10) (Some 3)], scheduleLogs = []\<rparr>"

definition twoProviders :: Store where
  "twoProviders = \<lparr>providers = [providerOf 1 10 0 None None, providerOf 2 10 0 None None],
     scheduleLogs = []\<rparr>"

definition noProviders :: Store where
  "noProviders = \<lparr>providers = [], scheduleLogs = []\<rparr>"

definition busyToday :: ProviderMetrics where
  "busyToday = \<lparr>todayRequests = 20, todayAvgResponseTime = 0, todayErrorRate = 0,
     yesterdayRequests = 20, yesterdayAvgResponseTime = 0, yesterdayErrorRate = 0\<rparr>"

definition ruleAnalyticsOf :: "Provider \<Rightarrow> ProviderAnalytics" where
  "ruleAnalyticsOf p =
     \<lparr>weight = weight p, priority = priority p, id_p = id_p p,
      baseWeight = baseWeight p, basePriority = basePriority p,
      pa_metrics = busyToday, pa_performanceScore = 100, pa_confidence = 80,
      pa_circuitState = Closed,
      isAdjusted = ((baseWeight p \<noteq> None \<and> Some (weight p) \<noteq> baseWeight p)
                    \<or> (basePriority p \<noteq> None \<and> Some (priority p) \<noteq> basePriority p))\<rparr>"

definition nearTie :: ProviderMetrics where
  "nearTie = \<lparr>todayRequests = 40, todayAvgResponseTime = 275 / 2, todayErrorRate = 0,
     yesterdayRequests = 0, yesterdayAvgResponseTime = 0, yesterdayErrorRate = 0\<rparr>"

section \<open>Rounding to the nearest double\<close>

lemma rne_bounds: "of_int (rne y) \<le> y + 1 / 2" "y - 1 / 2 \<le> of_int (rne y)"
  unfolding rne_def Let_def by (auto; linarith)+

lemma rne_of_int: "rne (of_int n) = n"
  by (simp add: rne_def)

lemma rne_ge_int: "of_int n \<le> y \<Longrightarrow> n \<le> rne y"
proof -
  assume "of_int n \<le> y"
  then have "n \<le> \<lfloor>y\<rfloor>" by (simp add: le_floor_iff)
  moreover have "\<lfloor>y\<rfloor> \<le> rne y" by (simp add: rne_def Let_def)
  ultimately show ?thesis by linarith
qed

lemma rne_le_int: "y \<le> of_int n \<Longrightarrow> rne y \<le> n"
proof -
  assume h: "y \<le> of_int n"
  show ?thesis
  proof (cases "y = of_int n")
    case True
    then show ?thesis by (simp add: rne_of_int)
  next
    case False
    with h have "y < of_int n" by simp
    then have "\<lfloor>y\<rfloor> < n" by (simp add: floor_less_iff)
    moreover have "rne y \<le> \<lfloor>y\<rfloor> + 1" by (simp add: rne_def Let_def)
    ultimately show ?thesis by linarith
  qed
qed

lemma rne_mono: "a \<le> b \<Longrightarrow> rne a \<le> rne b"
proof -
  assume ab: "a \<le> b"
  have fl: "\<lfloor>a\<rfloor> \<le> \<lfloor>b\<rfloor>" using ab by (rule floor_mono)
  show ?thesis
  proof (cases "\<lfloor>a\<rfloor> = \<lfloor>b\<rfloor>")
    case True
    then have "a - of_int \<lfloor>a\<rfloor> \<le> b - of_int \<lfloor>b\<rfloor>" using ab by simp
    then show ?thesis using True unfolding rne_def Let_def by auto
  next
    case False
    with fl have "\<lfloor>a\<rfloor> + 1 \<le> \<lfloor>b\<rfloor>" by linarith
    moreover have "rne a \<le> \<lfloor>a\<rfloor> + 1" by (simp add: rne_def Let_def)
    moreover have "\<lfloor>b\<rfloor> \<le> rne b" by (simp add: rne_def Let_def)
    ultimately show ?thesis by linarith
  qed
qed

text \<open>The binade of a positive number.\<close>

lemma binade:
  assumes "0 < x"
  shows "2 powr (of_int \<lfloor>log 2 x\<rfloor>) \<le> x" "x < 2 powr (of_int \<lfloor>log 2 x\<rfloor> + 1)"
  using floor_log_eq_powr_iff [of x 2 "\<lfloor>log 2 x\<rfloor>"] assms by simp_all

lemma binade_unique:
  assumes "0 < x" "2 powr (of_int e) \<le> x" "x < 2 powr (of_int e + 1)"
  shows "\<lfloor>log 2 x\<rfloor> = e"
  using floor_log_eq_powr_iff [of x 2 e] assms by simp

lemma two_powr_52: "(2::real) powr (a - 52) * 2 ^ 52 = 2 powr a"
proof -
  have "(2::real) ^ 52 = 2 powr (real 52)" by (simp only: powr_realpow zero_less_numeral)
  then have "(2::real) powr (a - 52) * 2 ^ 52 = 2 powr (a - 52) * 2 powr (real 52)"
    by (simp only:)
  also have "\<dots> = 2 powr (a - 52 + real 52)" by (simp only: powr_add)
  also have "a - 52 + real 52 = a" by simp
  finally show ?thesis .
qed

lemma two_powr_Suc: "(2::real) powr (a + 1) = 2 powr a * 2"
  by (simp only: powr_add powr_one zero_le_numeral)

lemma scaled_range:
  fixes x :: real
  assumes "0 < x"
  defines "q \<equiv> 2 powr (of_int \<lfloor>log 2 x\<rfloor> - 52)"
  shows "0 < q" "2 ^ 52 \<le> x / q" "x / q < 2 ^ 53" "q * 2 ^ 52 = 2 powr (of_int \<lfloor>log 2 x\<rfloor>)"
proof -
  show q: "0 < q" unfolding q_def by (rule powr_gt_zero [THEN iffD2]) simp
  show e: "q * 2 ^ 52 = 2 powr (of_int \<lfloor>log 2 x\<rfloor>)"
    unfolding q_def by (rule two_powr_52)
  have "q * 2 ^ 52 \<le> x" using binade(1) [OF assms(1)] unfolding e .
  then show "2 ^ 52 \<le> x / q" using q by (simp only: pos_le_divide_eq mult.commute)
  have "x < q * 2 ^ 52 * 2"
    using binade(2) [OF assms(1)] unfolding two_powr_Suc e .
  also have "q * 2 ^ 52 * 2 = 2 ^ 53 * q" by simp
  finally show "x / q < 2 ^ 53" using q by (simp only: pos_divide_less_eq)
qed

lemma fl_zero: "fl 0 = 0"
  by (simp add: fl_def)

lemma fl_minus: "fl (- x) = - fl x"
  by (simp add: fl_def Let_def sgn_minus)

lemma fl_pos_eq:
  "0 < x \<Longrightarrow> fl x = of_int (rne (x / 2 powr (of_int \<lfloor>log 2 x\<rfloor> - 52)))
                     * 2 powr (of_int \<lfloor>log 2 x\<rfloor> - 52)"
  by (simp add: fl_def Let_def)

lemma fl_lower:
  assumes "0 < x"
  shows "2 powr (of_int \<lfloor>log 2 x\<rfloor>) \<le> fl x"
proof -
  define q :: real where "q = 2 powr (of_int \<lfloor>log 2 x\<rfloor> - 52)"
  note r = scaled_range [OF assms, folded q_def]
  have "(2::int) ^ 52 \<le> rne (x / q)"
    using r(2) by (intro rne_ge_int) simp
  then have "(2::real) ^ 52 \<le> of_int (rne (x / q))"
    by (metis of_int_le_iff of_int_numeral of_int_power)
  then have "q * 2 ^ 52 \<le> of_int (rne (x / q)) * q"
    using r(1) by (simp add: mult.commute)
  then show ?thesis
    unfolding fl_pos_eq [OF assms] q_def [symmetric] r(4) .
qed

lemma fl_upper:
  assumes "0 < x"
  shows "fl x \<le> 2 powr (of_int \<lfloor>log 2 x\<rfloor> + 1)"
proof -
  define q :: real where "q = 2 powr (of_int \<lfloor>log 2 x\<rfloor> - 52)"
  note r = scaled_range [OF assms, folded q_def]
  have "rne (x / q) \<le> (2::int) ^ 53"
    using r(3) by (intro rne_le_int) simp
  then have "of_int (rne (x / q)) \<le> (2::real) ^ 53"
    by (metis of_int_le_iff of_int_numeral of_int_power)
  then have "of_int (rne (x / q)) * q \<le> 2 ^ 53 * q"
    using r(1) by simp
  also have "2 ^ 53 * q = (q * 2 ^ 52) * 2" by simp
  also have "\<dots> = 2 powr (of_int \<lfloor>log 2 x\<rfloor> + 1)"
    unfolding r(4) by (simp add: powr_add)
  finally show ?thesis
    unfolding fl_pos_eq [OF assms] q_def [symmetric] .
qed

lemma fl_pos: "0 < x \<Longrightarrow> 0 < fl x"
proof -
  assume "0 < x"
  then have "2 powr (of_int \<lfloor>log 2 x\<rfloor>) \<le> fl x" by (rule fl_lower)
  moreover have "(0::real) < 2 powr (of_int \<lfloor>log 2 x\<rfloor>)" by simp
  ultimately show ?thesis by linarith
qed

lemma fl_nonneg: "0 \<le> x \<Longrightarrow> 0 \<le> fl x"
  using fl_pos [of x] fl_zero by (cases "x = 0") auto

lemma fl_mono_pos:
  assumes "0 < x" "x \<le> y"
  shows "fl x \<le> fl y"
proof -
  have y: "0 < y" using assms by simp
  have le: "\<lfloor>log 2 x\<rfloor> \<le> \<lfloor>log 2 y\<rfloor>"
    using assms y by (intro floor_mono) simp
  show ?thesis
  proof (cases "\<lfloor>log 2 x\<rfloor> = \<lfloor>log 2 y\<rfloor>")
    case True
    define q :: real where "q = 2 powr (of_int \<lfloor>log 2 y\<rfloor> - 52)"
    have q: "0 < q" by (simp add: q_def)
    have "rne (x / q) \<le> rne (y / q)"
      using assms q by (intro rne_mono) (simp add: divide_right_mono)
    then have "of_int (rne (x / q)) * q \<le> of_int (rne (y / q)) * q"
      using q by simp
    then show ?thesis
      unfolding fl_pos_eq [OF assms(1)] fl_pos_eq [OF y] True q_def [symmetric] .
  next
    case False
    with le have "of_int \<lfloor>log 2 x\<rfloor> + (1::real) \<le> of_int \<lfloor>log 2 y\<rfloor>"
      by linarith
    then have "(2::real) powr (of_int \<lfloor>log 2 x\<rfloor> + 1) \<le> 2 powr (of_int \<lfloor>log 2 y\<rfloor>)"
      by (intro powr_mono) simp_all
    with fl_upper [OF assms(1)] fl_lower [OF y] show ?thesis by linarith
  qed
qed

lemma fl_mono: "x \<le> y \<Longrightarrow> fl x \<le> fl y"
proof -
  assume xy: "x \<le> y"
  consider "0 < x" | "x = 0" | "x < 0" "0 \<le> y" | "x < 0" "y < 0" by linarith
  then show ?thesis
  proof cases
    case 1
    then show ?thesis using xy by (rule fl_mono_pos)
  next
    case 2
    then show ?thesis using xy fl_nonneg [of y] by (simp add: fl_zero)
  next
    case 3
    have "fl (- x) > 0" using 3 by (intro fl_pos) simp
    then have "fl x < 0" by (simp add: fl_minus)
    with fl_nonneg [OF 3(2)] show ?thesis by linarith
  next
    case 4
    have "fl (- y) \<le> fl (- x)" using 4 xy by (intro fl_mono_pos) simp_all
    then show ?thesis by (simp add: fl_minus)
  qed
qed

lemma fl_error_pos:
  assumes "0 < x"
  shows "\<bar>fl x - x\<bar> \<le> x / 2 ^ 53"
proof -
  define q :: real where "q = 2 powr (of_int \<lfloor>log 2 x\<rfloor> - 52)"
  note r = scaled_range [OF assms, folded q_def]
  have "\<bar>of_int (rne (x / q)) - x / q\<bar> \<le> 1 / 2"
    using rne_bounds [of "x / q"] by linarith
  then have "\<bar>of_int (rne (x / q)) - x / q\<bar> * q \<le> 1 / 2 * q"
    using r(1) by (intro mult_right_mono) simp_all
  moreover have "\<bar>of_int (rne (x / q)) - x / q\<bar> * q = \<bar>of_int (rne (x / q)) * q - x\<bar>"
  proof -
    have "\<bar>of_int (rne (x / q)) - x / q\<bar> * q = \<bar>(of_int (rne (x / q)) - x / q) * q\<bar>"
      using r(1) by (simp add: abs_mult)
    also have "(of_int (rne (x / q)) - x / q) * q = of_int (rne (x / q)) * q - x"
      using r(1) by (simp add: field_simps)
    finally show ?thesis .
  qed
  moreover have "1 / 2 * q \<le> x / 2 ^ 53"
  proof -
    have "q * 2 ^ 52 \<le> x" using r(2) r(1) by (simp add: field_simps)
    then show ?thesis by simp
  qed
  ultimately show ?thesis
    unfolding fl_pos_eq [OF assms] q_def [symmetric] by linarith
qed

lemma fl_upper_error: "0 \<le> x \<Longrightarrow> fl x \<le> x * (1 + 1 / 2 ^ 53)"
proof -
  assume "0 \<le> x"
  show ?thesis
  proof (cases "x = 0")
    case True
    then show ?thesis by (simp add: fl_zero)
  next
    case False
    with \<open>0 \<le> x\<close> have "0 < x" by simp
    then have "\<bar>fl x - x\<bar> \<le> x / 2 ^ 53" by (rule fl_error_pos)
    then have "fl x \<le> x + x / 2 ^ 53" by linarith
    also have "x + x / 2 ^ 53 = x * (1 + 1 / 2 ^ 53)" by (simp add: algebra_simps)
    finally show ?thesis .
  qed
qed

text \<open>
  The value of \<open>fl\<close> at a positive number, by scaling it into \<open>[2 ^ 52, 2 ^ 53)\<close>.
\<close>

lemma fl_value:
  assumes "0 < x" "2 ^ 52 \<le> x * 2 ^ k" "x * 2 ^ k < 2 ^ 53"
    and "rne (x * 2 ^ k) = n" "y = of_int n / 2 ^ k"
  shows "fl x = y"
proof -
  have p: "(2::real) powr (52 - real k) * 2 ^ k = 2 ^ 52"
  proof -
    have "(2::real) powr (52 - real k) * 2 ^ k = 2 powr (52 - real k) * 2 powr (real k)"
      by (simp add: powr_realpow)
    also have "\<dots> = 2 powr 52" by (simp add: powr_add [symmetric])
    also have "\<dots> = 2 ^ 52" by (simp add: powr_realpow [symmetric])
    finally show ?thesis .
  qed
  have lo: "2 powr (of_int (52 - int k)) \<le> x"
  proof -
    have "2 powr (52 - real k) * 2 ^ k \<le> x * 2 ^ k" using assms(2) p by simp
    then show ?thesis by simp
  qed
  have hi: "x < 2 powr (of_int (52 - int k) + 1)"
  proof -
    have "(2::real) powr (of_int (52 - int k) + 1) = 2 powr (52 - real k) * 2"
      using two_powr_Suc [of "52 - real k"] by simp
    then have "2 powr (of_int (52 - int k) + 1) * 2 ^ k = (2 powr (52 - real k) * 2 ^ k) * 2"
      by simp
    also have "\<dots> = 2 ^ 53" unfolding p by simp
    finally have "x * 2 ^ k < 2 powr (of_int (52 - int k) + 1) * 2 ^ k"
      using assms(3) by simp
    then show ?thesis by simp
  qed
  have e: "\<lfloor>log 2 x\<rfloor> = 52 - int k"
    using assms(1) lo hi by (rule binade_unique)
  have q: "(2::real) powr (of_int \<lfloor>log 2 x\<rfloor> - 52) = 1 / 2 ^ k"
  proof -
    have "(2::real) powr (of_int \<lfloor>log 2 x\<rfloor> - 52) = 2 powr (- real k)"
      unfolding e by simp
    also have "\<dots> = 1 / 2 ^ k"
      by (simp add: powr_minus powr_realpow inverse_eq_divide)
    finally show ?thesis .
  qed
  show ?thesis
    unfolding fl_pos_eq [OF assms(1)] q using assms(4,5) by simp
qed

lemma f_zero:
  "fmul 0 x = 0" "fmul x 0 = 0" "fdiv 0 x = 0" "fadd 0 0 = 0" "fsub x x = 0"
  by (simp_all add: fmul_def fdiv_def fadd_def fsub_def fl_zero)

lemma fl_one: "fl 1 = 1"
  by (rule fl_value [where k = 52 and n = "2 ^ 52"]) (simp_all add: rne_def)

lemma fdiv_ge_one: "0 < b \<Longrightarrow> b \<le> a \<Longrightarrow> 1 \<le> fdiv a b"
proof -
  assume "0 < b" "b \<le> a"
  then have "1 \<le> a / b" by simp
  then have "fl 1 \<le> fl (a / b)" by (rule fl_mono)
  then show ?thesis by (simp add: fdiv_def fl_one)
qed

lemma fmul_mono_left: "0 \<le> c \<Longrightarrow> a \<le> b \<Longrightarrow> fmul a c \<le> fmul b c"
  unfolding fmul_def by (intro fl_mono mult_right_mono)

lemma fdiv_mono_left: "0 < c \<Longrightarrow> a \<le> b \<Longrightarrow> fdiv a c \<le> fdiv b c"
  unfolding fdiv_def by (intro fl_mono divide_right_mono) simp_all

section \<open>Double arithmetic on the sample values\<close>

lemma dbl_1: "fsub 1 0 = 1"
  unfolding fadd_def fsub_def fmul_def fdiv_def
  by (rule fl_value [where k = 52 and n = 4503599627370496]) (simp_all add: rne_def)

lemma dbl_2: "fmul 1 60 = 60"
  unfolding fadd_def fsub_def fmul_def fdiv_def
  by (rule fl_value [where k = 47 and n = 8444249301319680]) (simp_all add: rne_def)

lemma dbl_3: "fdiv 0 10000 = 0"
  by (simp add: fadd_def fsub_def fmul_def fdiv_def fl_zero)

lemma dbl_4: "fmul 1 40 = 40"
  unfolding fadd_def fsub_def fmul_def fdiv_def
  by (rule fl_value [where k = 47 and n = 5629499534213120]) (simp_all add: rne_def)

lemma dbl_5: "fadd 60 40 = 100"
  unfolding fadd_def fsub_def fmul_def fdiv_def
  by (rule fl_value [where k = 46 and n = 7036874417766400]) (simp_all add: rne_def)

lemma dbl_6: "fmul 100 10 = 1000"
  unfolding fadd_def fsub_def fmul_def fdiv_def
  by (rule fl_value [where k = 43 and n = 8796093022208000]) (simp_all add: rne_def)

lemma dbl_7: "fdiv 1000 10 = 100"
  unfolding fadd_def fsub_def fmul_def fdiv_def
  by (rule fl_value [where k = 46 and n = 7036874417766400]) (simp_all add: rne_def)

lemma dbl_8: "fsub 1 (1 / 4) = 3 / 4"
  unfolding fadd_def fsub_def fmul_def fdiv_def
  by (rule fl_value [where k = 53 and n = 6755399441055744]) (simp_all add: rne_def)

lemma dbl_9: "fmul (3 / 4) 60 = 45"
  unfolding fadd_def fsub_def fmul_def fdiv_def
  by (rule fl_value [where k = 47 and n = 6333186975989760]) (simp_all add: rne_def)

lemma dbl_10: "fdiv 2500 10000 = 1 / 4"
  unfolding fadd_def fsub_def fmul_def fdiv_def
  by (rule fl_value [where k = 54 and n = 4503599627370496]) (simp_all add: rne_def)

lemma dbl_11: "fmul (3 / 4) 40 = 30"
  unfolding fadd_def fsub_def fmul_def fdiv_def
  by (rule fl_value [where k = 48 and n = 8444249301319680]) (simp_all add: rne_def)

lemma dbl_12: "fadd 45 30 = 75"
  unfolding fadd_def fsub_def fmul_def fdiv_def
  by (rule fl_value [where k = 46 and n = 5277655813324800]) (simp_all add: rne_def)

lemma dbl_13: "fmul 75 10 = 750"
  unfolding fadd_def fsub_def fmul_def fdiv_def
  by (rule fl_value [where k = 43 and n = 6597069766656000]) (simp_all add: rne_def)

lemma dbl_14: "fdiv 750 10 = 75"
  unfolding fadd_def fsub_def fmul_def fdiv_def
  by (rule fl_value [where k = 46 and n = 5277655813324800]) (simp_all add: rne_def)

lemma dbl_15: "fdiv (275 / 2) 10000 = 7926335344172073 / 576460752303423488"
  unfolding fadd_def fsub_def fmul_def fdiv_def
  by (rule fl_value [where k = 59 and n = 7926335344172073]) (simp_all add: rne_def)

lemma dbl_16: "fsub 1 (7926335344172073 / 576460752303423488) = 8883350264988303 / 9007199254740992"
  unfolding fadd_def fsub_def fmul_def fdiv_def
  by (rule fl_value [where k = 53 and n = 8883350264988303]) (simp_all add: rne_def)

lemma dbl_17: "fmul (8883350264988303 / 9007199254740992) 40 = 5552093915617689 / 140737488355328"
  unfolding fadd_def fsub_def fmul_def fdiv_def
  by (rule fl_value [where k = 47 and n = 5552093915617689]) (simp_all add: rne_def)

lemma dbl_18: "fadd 60 (5552093915617689 / 140737488355328) = 1749542902117171 / 17592186044416"
  unfolding fadd_def fsub_def fmul_def fdiv_def
  by (rule fl_value [where k = 46 and n = 6998171608468684]) (simp_all add: rne_def)

lemma dbl_19: "fmul (1749542902117171 / 17592186044416) 10 = 8747714510585855 / 8796093022208"
  unfolding fadd_def fsub_def fmul_def fdiv_def
  by (rule fl_value [where k = 43 and n = 8747714510585855]) (simp_all add: rne_def)

lemma dbl_20: "fdiv 994 10 = 3497326585629901 / 35184372088832"
  unfolding fadd_def fsub_def fmul_def fdiv_def
  by (rule fl_value [where k = 46 and n = 6994653171259802]) (simp_all add: rne_def)

lemma dbl_21: "fmul 10 5 = 50"
  unfolding fadd_def fsub_def fmul_def fdiv_def
  by (rule fl_value [where k = 47 and n = 7036874417766400]) (simp_all add: rne_def)

lemma dbl_22: "fmul 10 2 = 20"
  unfolding fadd_def fsub_def fmul_def fdiv_def
  by (rule fl_value [where k = 48 and n = 5629499534213120]) (simp_all add: rne_def)

lemma dbl_23: "fdiv 3 10 = 5404319552844595 / 18014398509481984"
  unfolding fadd_def fsub_def fmul_def fdiv_def
  by (rule fl_value [where k = 54 and n = 5404319552844595]) (simp_all add: rne_def)

lemma dbl_24: "fmul (5404319552844595 / 18014398509481984) 50 = 15"
  unfolding fadd_def fsub_def fmul_def fdiv_def
  by (rule fl_value [where k = 49 and n = 8444249301319680]) (simp_all add: rne_def)

lemma dbl_25: "fdiv 7 10 = 3152519739159347 / 4503599627370496"
  unfolding fadd_def fsub_def fmul_def fdiv_def
  by (rule fl_value [where k = 53 and n = 6305039478318694]) (simp_all add: rne_def)

lemma dbl_26: "fmul (3152519739159347 / 4503599627370496) 50 = 35"
  unfolding fadd_def fsub_def fmul_def fdiv_def
  by (rule fl_value [where k = 47 and n = 4925812092436480]) (simp_all add: rne_def)

lemmas dbl = dbl_1 dbl_2 dbl_3 dbl_4 dbl_5 dbl_6 dbl_7 dbl_8 dbl_9 dbl_10 dbl_11 dbl_12 dbl_13 dbl_14 dbl_15 dbl_16 dbl_17 dbl_18 dbl_19 dbl_20 dbl_21 dbl_22 dbl_23 dbl_24 dbl_25 dbl_26

lemma dblf_1: "fdiv 5 10 = 1 / 2"
  unfolding fadd_def fsub_def fmul_def fdiv_def
  by (rule fl_value [where k = 53 and n = 4503599627370496]) (simp_all add: rne_def)

lemma dblf_2: "fdiv 4 20 = 3602879701896397 / 18014398509481984"
  unfolding fadd_def fsub_def fmul_def fdiv_def
  by (rule fl_value [where k = 55 and n = 7205759403792794]) (simp_all add: rne_def)

lemma dblf_3: "fdiv 3 30 = 3602879701896397 / 36028797018963968"
  unfolding fadd_def fsub_def fmul_def fdiv_def
  by (rule fl_value [where k = 56 and n = 7205759403792794]) (simp_all add: rne_def)

lemma dblf_4: "fdiv 10 60 = 6004799503160661 / 36028797018963968"
  unfolding fadd_def fsub_def fmul_def fdiv_def
  by (rule fl_value [where k = 55 and n = 6004799503160661]) (simp_all add: rne_def)

lemma dblf_5: "fdiv 20 60 = 6004799503160661 / 18014398509481984"
  unfolding fadd_def fsub_def fmul_def fdiv_def
  by (rule fl_value [where k = 54 and n = 6004799503160661]) (simp_all add: rne_def)

lemma dblf_6: "fdiv 30 60 = 1 / 2"
  unfolding fadd_def fsub_def fmul_def fdiv_def
  by (rule fl_value [where k = 53 and n = 4503599627370496]) (simp_all add: rne_def)

lemma dblf_7: "fl (3 / 5) = 5404319552844595 / 9007199254740992"
  unfolding fadd_def fsub_def fmul_def fdiv_def
  by (rule fl_value [where k = 53 and n = 5404319552844595]) (simp_all add: rne_def)

lemma dblf_8: "fmul (6004799503160661 / 36028797018963968) (5404319552844595 / 9007199254740992) = 7205759403792793 / 72057594037927936"
  unfolding fadd_def fsub_def fmul_def fdiv_def
  by (rule fl_value [where k = 56 and n = 7205759403792793]) (simp_all add: rne_def)

lemma dblf_9: "fl (3 / 10) = 5404319552844595 / 18014398509481984"
  unfolding fadd_def fsub_def fmul_def fdiv_def
  by (rule fl_value [where k = 54 and n = 5404319552844595]) (simp_all add: rne_def)

lemma dblf_10: "fmul (6004799503160661 / 18014398509481984) (5404319552844595 / 18014398509481984) = 7205759403792793 / 72057594037927936"
  unfolding fadd_def fsub_def fmul_def fdiv_def
  by (rule fl_value [where k = 56 and n = 7205759403792793]) (simp_all add: rne_def)

lemma dblf_11: "fl (1 / 10) = 3602879701896397 / 36028797018963968"
  unfolding fadd_def fsub_def fmul_def fdiv_def
  by (rule fl_value [where k = 56 and n = 7205759403792794]) (simp_all add: rne_def)

lemma dblf_12: "fmul (1 / 2) (3602879701896397 / 36028797018963968) = 3602879701896397 / 72057594037927936"
  unfolding fadd_def fsub_def fmul_def fdiv_def
  by (rule fl_value [where k = 57 and n = 7205759403792794]) (simp_all add: rne_def)

lemma dblf_13: "fadd (7205759403792793 / 72057594037927936) (7205759403792793 / 72057594037927936) = 7205759403792793 / 36028797018963968"
  unfolding fadd_def fsub_def fmul_def fdiv_def
  by (rule fl_value [where k = 55 and n = 7205759403792793]) (simp_all add: rne_def)

lemma dblf_14: "fadd (7205759403792793 / 36028797018963968) (3602879701896397 / 72057594037927936) = 1 / 4"
  unfolding fadd_def fsub_def fmul_def fdiv_def
  by (rule fl_value [where k = 55 and n = 9007199254740992]) (simp_all add: rne_def)

lemma dblf_15: "fmul (1 / 2) (7205759403792793 / 72057594037927936) = 7205759403792793 / 144115188075855872"
  unfolding fadd_def fsub_def fmul_def fdiv_def
  by (rule fl_value [where k = 57 and n = 7205759403792793]) (simp_all add: rne_def)

lemma dblf_16: "fmul (3602879701896397 / 18014398509481984) (7205759403792793 / 72057594037927936) = 5764607523034235 / 288230376151711744"
  unfolding fadd_def fsub_def fmul_def fdiv_def
  by (rule fl_value [where k = 58 and n = 5764607523034235]) (simp_all add: rne_def)

lemma dblf_17: "fadd (7205759403792793 / 144115188075855872) (5764607523034235 / 288230376151711744) = 5044031582654955 / 72057594037927936"
  unfolding fadd_def fsub_def fmul_def fdiv_def
  by (rule fl_value [where k = 56 and n = 5044031582654955]) (simp_all add: rne_def)

lemma dblf_18: "fmul (3602879701896397 / 36028797018963968) (3602879701896397 / 72057594037927936) = 1441151880758559 / 288230376151711744"
  unfolding fadd_def fsub_def fmul_def fdiv_def
  by (rule fl_value [where k = 60 and n = 5764607523034236]) (simp_all add: rne_def)

lemma dblf_19: "fadd (5044031582654955 / 72057594037927936) (1441151880758559 / 288230376151711744) = 5404319552844595 / 72057594037927936"
  unfolding fadd_def fsub_def fmul_def fdiv_def
  by (rule fl_value [where k = 56 and n = 5404319552844595]) (simp_all add: rne_def)

lemma dblf_20: "fdiv (5404319552844595 / 72057594037927936) (1 / 4) = 5404319552844595 / 18014398509481984"
  unfolding fadd_def fsub_def fmul_def fdiv_def
  by (rule fl_value [where k = 54 and n = 5404319552844595]) (simp_all add: rne_def)

lemma dblf_21: "fmul 1000 (7205759403792793 / 72057594037927936) = 7036874417766399 / 70368744177664"
  unfolding fadd_def fsub_def fmul_def fdiv_def
  by (rule fl_value [where k = 46 and n = 7036874417766399]) (simp_all add: rne_def)

lemma dblf_22: "fmul 2000 (7205759403792793 / 72057594037927936) = 7036874417766399 / 35184372088832"
  unfolding fadd_def fsub_def fmul_def fdiv_def
  by (rule fl_value [where k = 45 and n = 7036874417766399]) (simp_all add: rne_def)

lemma dblf_23: "fadd (7036874417766399 / 70368744177664) (7036874417766399 / 35184372088832) = 5277655813324799 / 17592186044416"
  unfolding fadd_def fsub_def fmul_def fdiv_def
  by (rule fl_value [where k = 44 and n = 5277655813324799]) (simp_all add: rne_def)

lemma dblf_24: "fmul 3000 (3602879701896397 / 72057594037927936) = 150"
  unfolding fadd_def fsub_def fmul_def fdiv_def
  by (rule fl_value [where k = 45 and n = 5277655813324800]) (simp_all add: rne_def)

lemma dblf_25: "fadd (5277655813324799 / 17592186044416) 150 = 7916483719987199 / 17592186044416"
  unfolding fadd_def fsub_def fmul_def fdiv_def
  by (rule fl_value [where k = 44 and n = 7916483719987199]) (simp_all add: rne_def)

lemma dblf_26: "fdiv (7916483719987199 / 17592186044416) (1 / 4) = 7916483719987199 / 4398046511104"
  unfolding fadd_def fsub_def fmul_def fdiv_def
  by (rule fl_value [where k = 42 and n = 7916483719987199]) (simp_all add: rne_def)

lemmas dblf = dblf_1 dblf_2 dblf_3 dblf_4 dblf_5 dblf_6 dblf_7 dblf_8 dblf_9 dblf_10 dblf_11 dblf_12 dblf_13 dblf_14 dblf_15 dblf_16 dblf_17 dblf_18 dblf_19 dblf_20 dblf_21 dblf_22 dblf_23 dblf_24 dblf_25 dblf_26

lemma dblm_1: "fdiv 10 100 = 3602879701896397 / 36028797018963968"
  unfolding fadd_def fsub_def fmul_def fdiv_def
  by (rule fl_value [where k = 56 and n = 7205759403792794]) (simp_all add: rne_def)

lemma dblm_2: "fmul 10 (3602879701896397 / 36028797018963968) = 1"
  unfolding fadd_def fsub_def fmul_def fdiv_def
  by (rule fl_value [where k = 52 and n = 4503599627370496]) (simp_all add: rne_def)

lemma dblm_3: "fmul 20 (3602879701896397 / 36028797018963968) = 2"
  unfolding fadd_def fsub_def fmul_def fdiv_def
  by (rule fl_value [where k = 51 and n = 4503599627370496]) (simp_all add: rne_def)

lemma dblm_4: "fl (7 / 10) = 3152519739159347 / 4503599627370496"
  unfolding fadd_def fsub_def fmul_def fdiv_def
  by (rule fl_value [where k = 53 and n = 6305039478318694]) (simp_all add: rne_def)

lemma dblm_5: "fl (6 / 5) = 5404319552844595 / 4503599627370496"
  unfolding fadd_def fsub_def fmul_def fdiv_def
  by (rule fl_value [where k = 52 and n = 5404319552844595]) (simp_all add: rne_def)

lemma dblm_6: "fmul 10 (3152519739159347 / 4503599627370496) = 7"
  unfolding fadd_def fsub_def fmul_def fdiv_def
  by (rule fl_value [where k = 50 and n = 7881299347898368]) (simp_all add: rne_def)

lemma dblm_7: "fmul 90 (3152519739159347 / 4503599627370496) = 8866461766385663 / 140737488355328"
  unfolding fadd_def fsub_def fmul_def fdiv_def
  by (rule fl_value [where k = 47 and n = 8866461766385663]) (simp_all add: rne_def)

lemma dblm_8: "fmul 10 (5404319552844595 / 4503599627370496) = 12"
  unfolding fadd_def fsub_def fmul_def fdiv_def
  by (rule fl_value [where k = 49 and n = 6755399441055744]) (simp_all add: rne_def)

lemmas dblm = dblm_1 dblm_2 dblm_3 dblm_4 dblm_5 dblm_6 dblm_7 dblm_8

section \<open>Properties of the scorer\<close>

lemma max_min_swap: "(lo::real) \<le> hi \<Longrightarrow> max lo (min hi x) = min hi (max lo x)"
  by (simp add: max_def min_def)

lemma calculateScore_zero:
  "todayErrorRate m = 0 \<Longrightarrow> todayAvgResponseTime m = 0 \<Longrightarrow> calculateScore m = 100"
  unfolding calculateScore_def Let_def Math_round_def
  by (simp add: dbl)

text \<open>
  C8. \<open>calculateScore\<close> is the sum of the success term, capped to 0..60, and the speed
  term, capped to 0..40, rounded to one decimal, every operation being the double operation
  of the code; a provider without errors and without latency scores 100, and one with error
  rate 1 and a response time of 10000 ms or more scores 0. (At error rate 0 and 137.5 ms
  the doubles give 99.4, the double nearest to 994 / 10, as the code does.)
\<close>

theorem calculateScore_formula:
  assumes "10000 \<le> t"
  shows "calculateScore m =
     fdiv (real_of_int (round
        (fmul (fadd (min 60 (max 0 (fmul (fsub 1 (todayErrorRate m)) 60)))
                    (min 40 (max 0 (fmul (fsub 1 (min (fdiv (todayAvgResponseTime m) 10000) 1))
                                         40)))) 10))) 10
   \<and> calculateScore (m\<lparr>todayErrorRate := 0, todayAvgResponseTime := 0\<rparr>) = 100
   \<and> calculateScore (m\<lparr>todayErrorRate := 1, todayAvgResponseTime := t\<rparr>) = 0"
proof (intro conjI)
  show "calculateScore m =
     fdiv (real_of_int (round
        (fmul (fadd (min 60 (max 0 (fmul (fsub 1 (todayErrorRate m)) 60)))
                    (min 40 (max 0 (fmul (fsub 1 (min (fdiv (todayAvgResponseTime m) 10000) 1))
                                         40)))) 10))) 10"
    by (simp add: calculateScore_def Math_round_def round_def Let_def max_min_swap)
next
  show "calculateScore (m\<lparr>todayErrorRate := 0, todayAvgResponseTime := 0\<rparr>) = 100"
    by (rule calculateScore_zero) simp_all
next
  from assms have "1 \<le> fdiv t 10000" by (intro fdiv_ge_one) simp_all
  then have "min (fdiv t 10000) 1 = 1" by (simp add: min_def)
  then show "calculateScore (m\<lparr>todayErrorRate := 1, todayAvgResponseTime := t\<rparr>) = 0"
    by (simp add: calculateScore_def Math_round_def Let_def f_zero)
qed

theorem calculateScore_formula_witness:
  "(10000::real) \<le> 12000
   \<and> calculateScore slowFailing = 75
   \<and> calculateScore nearTie = fdiv 994 10
   \<and> calculateScore (slowFailing\<lparr>todayErrorRate := 1, todayAvgResponseTime := 12000\<rparr>) = 0"
proof -
  have h: "(10000::real) \<le> 12000" by simp
  have r: "round (750::real) = 750"
    using round_of_int [of 750, where ?'a = real] by simp
  have s: "calculateScore slowFailing = 75"
    unfolding calculateScore_def Let_def Math_round_def slowFailing_def
    by (simp add: dbl)
  have n: "calculateScore nearTie = fdiv 994 10"
    unfolding calculateScore_def Let_def Math_round_def nearTie_def
    by (simp add: dbl)
  from calculateScore_formula [OF h, of slowFailing] s n h show ?thesis by blast
qed

lemma Math_round_mono: "x \<le> y \<Longrightarrow> Math_round x \<le> Math_round y"
  by (simp add: Math_round_def floor_mono)

lemma ramp_bounds:
  assumes m: "1 \<le> minSize" and s: "0 < s"
  shows "0 \<le> Math_round (fmul (fdiv s minSize) 50)"
    and "s < minSize \<Longrightarrow> Math_round (fmul (fdiv s minSize) 50) \<le> 50"
proof -
  have "0 \<le> fdiv s minSize" unfolding fdiv_def using m s by (intro fl_nonneg) simp
  then have "0 \<le> fmul (fdiv s minSize) 50" unfolding fmul_def by (intro fl_nonneg) simp
  then show "0 \<le> Math_round (fmul (fdiv s minSize) 50)"
    unfolding Math_round_def by linarith
next
  assume "s < minSize"
  then have "fdiv s minSize \<le> fdiv minSize minSize"
    using m by (intro fdiv_mono_left) simp_all
  also have "fdiv minSize minSize = 1" using m by (simp add: fdiv_def fl_one)
  finally have "fmul (fdiv s minSize) 50 \<le> fmul 1 50" by (intro fmul_mono_left) simp_all
  also have "fmul 1 50 = 50"
    unfolding fmul_def by (rule fl_value [where k = 47 and n = "50 * 2 ^ 47"]) (simp_all add: rne_def)
  finally show "Math_round (fmul (fdiv s minSize) 50) \<le> 50"
    unfolding Math_round_def by linarith
qed

text \<open>
  C9. For a fixed \<open>minSize\<close> of at least 1, \<open>calculateConfidence\<close> is non-decreasing in
  the sample size.
\<close>

theorem calculateConfidence_mono:
  assumes m: "1 \<le> minSize" and le: "s1 \<le> s2"
  shows "calculateConfidence s1 minSize \<le> calculateConfidence s2 minSize"
proof -
  have ramp_mono: "Math_round (fmul (fdiv s1 minSize) 50) \<le> Math_round (fmul (fdiv s2 minSize) 50)"
    using le m by (intro Math_round_mono fmul_mono_left fdiv_mono_left) simp_all
  show ?thesis
  proof (cases "0 < s1")
    case True
    then have s2: "0 < s2" using le by simp
    show ?thesis
      using m le ramp_bounds [OF m True] ramp_bounds [OF m s2] ramp_mono
      by (auto simp: calculateConfidence_def)
  next
    case False
    have "0 < fmul minSize 5" "0 < fmul minSize 2"
      unfolding fmul_def using m by (simp_all add: fl_pos)
    with False have c1: "calculateConfidence s1 minSize \<le> 0"
      using m by (auto simp: calculateConfidence_def)
    have "0 \<le> calculateConfidence s2 minSize"
      using ramp_bounds(1) [OF m, of s2] by (auto simp: calculateConfidence_def)
    with c1 show ?thesis by linarith
  qed
qed

theorem calculateConfidence_mono_witness:
  "(1::real) \<le> 10 \<and> (3::real) \<le> 7
   \<and> calculateConfidence 3 10 = 15 \<and> calculateConfidence 7 10 = 35
   \<and> calculateConfidence 3 10 \<le> calculateConfidence 7 10"
proof -
  have m: "(1::real) \<le> 10" and le: "(3::real) \<le> 7" by simp_all
  have v: "calculateConfidence 3 10 = 15" "calculateConfidence 7 10 = 35"
    unfolding calculateConfidence_def Math_round_def by (simp_all add: dbl)
  show ?thesis
    using calculateConfidence_mono [OF m le] v by simp
qed

section \<open>Properties of the window fusion\<close>

lemma fuse_weight_pos:
  assumes "requests st + requests mt + requests lt \<noteq> 0"
  shows "0 < fadd (fadd (fmul (fdiv (real (requests st))
                                   (real (requests st + requests mt + requests lt))) (fl (6 / 10)))
                        (fmul (fdiv (real (requests mt))
                                   (real (requests st + requests mt + requests lt))) (fl (3 / 10))))
                  (fmul (fdiv (real (requests lt))
                             (real (requests st + requests mt + requests lt))) (fl (1 / 10)))"
proof -
  define n where "n = real (requests st + requests mt + requests lt)"
  have "0 < requests st + requests mt + requests lt" using assms by simp
  then have n: "0 < n" unfolding n_def by (simp only: of_nat_0_less_iff)
  have d: "(0::real) < fl (6 / 10)" "(0::real) < fl (3 / 10)" "(0::real) < fl (1 / 10)"
    by (simp_all add: fl_pos)
  have w0: "0 \<le> fmul (fdiv (real r) n) c" if "0 < c" for r c
  proof -
    have "0 \<le> fdiv (real r) n" unfolding fdiv_def using n by (intro fl_nonneg) simp
    then show ?thesis unfolding fmul_def using that by (intro fl_nonneg) simp
  qed
  have w1: "0 < fmul (fdiv (real r) n) c" if "0 < c" "0 < r" for r c
  proof -
    have "0 < fdiv (real r) n" unfolding fdiv_def using n that by (intro fl_pos) simp
    then show ?thesis unfolding fmul_def using that by (intro fl_pos) simp
  qed
  define a where "a = fmul (fdiv (real (requests st)) n) (fl (6 / 10))"
  define b where "b = fmul (fdiv (real (requests mt)) n) (fl (3 / 10))"
  define c where "c = fmul (fdiv (real (requests lt)) n) (fl (1 / 10))"
  have nonneg: "0 \<le> a" "0 \<le> b" "0 \<le> c"
    unfolding a_def b_def c_def using w0 d by simp_all
  have ab: "0 \<le> fadd a b" unfolding fadd_def using nonneg by (intro fl_nonneg) simp
  have "0 < requests st \<or> 0 < requests mt \<or> 0 < requests lt" using assms by auto
  then have "0 < fadd a b \<or> 0 < c"
  proof (elim disjE)
    assume "0 < requests st"
    then have "0 < a" unfolding a_def using w1 d by simp
    then have "0 < fadd a b" unfolding fadd_def using nonneg by (intro fl_pos) simp
    then show ?thesis ..
  next
    assume "0 < requests mt"
    then have "0 < b" unfolding b_def using w1 d by simp
    then have "0 < fadd a b" unfolding fadd_def using nonneg by (intro fl_pos) simp
    then show ?thesis ..
  next
    assume "0 < requests lt"
    then have "0 < c" unfolding c_def using w1 d by simp
    then show ?thesis ..
  qed
  then have "0 < fadd a b + c" using ab nonneg by linarith
  then have "0 < fadd (fadd a b) c" unfolding fadd_def [of "fadd a b" c] by (rule fl_pos)
  then show ?thesis unfolding a_def b_def c_def n_def .
qed

lemma windowOf_busy: "windowOf busyStats = busyWindow"
  by (simp add: windowOf_def busyStats_def busyWindow_def f_zero)

lemma busy_metrics:
  "weighted (fuseWindows busyWindow busyWindow busyWindow)
     = \<lparr>requests = 60, errorRate = 0, avgResponseTime = 0, performanceScore = 100\<rparr>"
proof -
  let ?m = "\<lparr>todayRequests = 60, todayAvgResponseTime = 0, todayErrorRate = 0,
     yesterdayRequests = 0, yesterdayAvgResponseTime = 0, yesterdayErrorRate = 0\<rparr>"
  have s: "calculateScore ?m = 100" by (rule calculateScore_zero) simp_all
  show ?thesis
    unfolding fuseWindows_def Let_def busyWindow_def
    by (simp add: f_zero s)
qed

lemma sample_blend:
  "spec_blend errorRate shortSample mediumSample longSample = 5404319552844595 / 18014398509481984"
  "spec_blend avgResponseTime shortSample mediumSample longSample = 7916483719987199 / 4398046511104"
  unfolding spec_blend_def Let_def shortSample_def mediumSample_def longSample_def windowOf_def
  by (simp_all add: dblf)

text \<open>
  C7. Without requests in any window the fused error rate and latency are 0 and the fused
  score is the score of zero error rate and zero latency; otherwise both are the blend of
  the three windows, each weighted by its request share times its decay weight and
  renormalised by the sum of the three decayed weights, in the double arithmetic of the
  code. (On the sample windows the fused latency is \<open>1800 - 2 ^ -42\<close>, the double
  1799.9999999999998.)
\<close>

theorem fuseWindows_blend:
  "(requests st + requests mt + requests lt = 0 \<longrightarrow>
      errorRate (weighted (fuseWindows st mt lt)) = 0
      \<and> avgResponseTime (weighted (fuseWindows st mt lt)) = 0
      \<and> performanceScore (weighted (fuseWindows st mt lt))
          = calculateScore (m\<lparr>todayErrorRate := 0, todayAvgResponseTime := 0\<rparr>))
   \<and> (requests st + requests mt + requests lt \<noteq> 0 \<longrightarrow>
      errorRate (weighted (fuseWindows st mt lt)) = spec_blend errorRate st mt lt
      \<and> avgResponseTime (weighted (fuseWindows st mt lt)) = spec_blend avgResponseTime st mt lt)"
proof (intro conjI impI)
  assume z: "requests st + requests mt + requests lt = 0"
  show "errorRate (weighted (fuseWindows st mt lt)) = 0"
    using z by (simp add: fuseWindows_def Let_def)
  show "avgResponseTime (weighted (fuseWindows st mt lt)) = 0"
    using z by (simp add: fuseWindows_def Let_def)
  show "performanceScore (weighted (fuseWindows st mt lt))
          = calculateScore (m\<lparr>todayErrorRate := 0, todayAvgResponseTime := 0\<rparr>)"
    using z by (simp add: fuseWindows_def Let_def calculateScore_def)
next
  assume nz: "requests st + requests mt + requests lt \<noteq> 0"
  note pos = fuse_weight_pos [OF nz]
  have c: "(requests st + requests mt + requests lt = 0) = False" using nz by simp
  show "errorRate (weighted (fuseWindows st mt lt)) = spec_blend errorRate st mt lt"
    unfolding fuseWindows_def spec_blend_def Let_def c if_False using pos by simp
  show "avgResponseTime (weighted (fuseWindows st mt lt)) = spec_blend avgResponseTime st mt lt"
    unfolding fuseWindows_def spec_blend_def Let_def c if_False using pos by simp
qed

theorem fuseWindows_blend_witness:
  "requests idleWindow + requests idleWindow + requests idleWindow = 0
   \<and> performanceScore (weighted (fuseWindows idleWindow idleWindow idleWindow)) = 100
   \<and> requests shortSample + requests mediumSample + requests longSample \<noteq> 0
   \<and> errorRate (weighted (fuseWindows shortSample mediumSample longSample)) = fl (3 / 10)
   \<and> avgResponseTime (weighted (fuseWindows shortSample mediumSample longSample))
       = 1800 - 1 / 2 ^ 42"
proof -
  have z: "requests idleWindow + requests idleWindow + requests idleWindow = 0"
    by (simp add: idleWindow_def)
  have nz: "requests shortSample + requests mediumSample + requests longSample \<noteq> 0"
    by (simp add: shortSample_def windowOf_def)
  have e: "spec_blend errorRate shortSample mediumSample longSample = fl (3 / 10)"
    unfolding sample_blend by (simp add: dblf)
  have l: "spec_blend avgResponseTime shortSample mediumSample longSample = 1800 - 1 / 2 ^ 42"
    unfolding sample_blend by simp
  have s: "calculateScore (slowFailing\<lparr>todayErrorRate := 0, todayAvgResponseTime := 0\<rparr>) = 100"
    by (rule calculateScore_zero) simp_all
  from fuseWindows_blend [of idleWindow idleWindow idleWindow slowFailing] z
  have a: "performanceScore (weighted (fuseWindows idleWindow idleWindow idleWindow))
             = calculateScore (slowFailing\<lparr>todayErrorRate := 0, todayAvgResponseTime := 0\<rparr>)"
    by blast
  from fuseWindows_blend [of shortSample mediumSample longSample slowFailing] nz
  have b: "errorRate (weighted (fuseWindows shortSample mediumSample longSample))
             = spec_blend errorRate shortSample mediumSample longSample"
    "avgResponseTime (weighted (fuseWindows shortSample mediumSample longSample))
             = spec_blend avgResponseTime shortSample mediumSample longSample"
    by blast+
  show ?thesis
    unfolding a b e l s using z nz by blast
qed

section \<open>Evaluating the policies on the sample inputs\<close>

lemma analyticsOf_simps:
  "weight (analyticsOf i w q bw bq cs) = w"
  "priority (analyticsOf i w q bw bq cs) = q"
  "id_p (analyticsOf i w q bw bq cs) = i"
  "baseWeight (analyticsOf i w q bw bq cs) = bw"
  "basePriority (analyticsOf i w q bw bq cs) = bq"
  "circuitState (analyticsOf i w q bw bq cs) = cs"
  "requests (weighted (metrics (analyticsOf i w q bw bq cs))) = 60"
  "performanceScore (weighted (metrics (analyticsOf i w q bw bq cs))) = 100"
  by (simp_all add: analyticsOf_def busy_metrics)

lemma sampleConfig_simps:
  "minSampleSize sampleConfig = 10"
  "maxWeightAdjustmentPercent sampleConfig = 10"
  "circuitRecoveryWeightPercent sampleConfig = 30"
  by (simp_all add: sampleConfig_def)

lemma providerOf_simps:
  "weight (providerOf i w q bw bq) = w"
  "priority (providerOf i w q bw bq) = q"
  "id_p (providerOf i w q bw bq) = i"
  "baseWeight (providerOf i w q bw bq) = bw"
  "basePriority (providerOf i w q bw bq) = bq"
  "isEnabled (providerOf i w q bw bq) = True"
  "isDeleted (providerOf i w q bw bq) = False"
  by (simp_all add: providerOf_def)

lemma sampleEnv_simps:
  "settingsResult sampleEnv = Inr sampleSettings"
  "queryError sampleEnv = None"
  "windowStats sampleEnv m i = busyStats"
  "todayStats sampleEnv i = busyStats"
  "yesterdayStats sampleEnv i = busyStats"
  "getCircuitState sampleEnv i = Closed"
  "updateError sampleEnv i = None"
  "logError sampleEnv = None"
  by (simp_all add: sampleEnv_def)

lemma failingEnv_simps:
  "settingsResult failingEnv = Inr sampleSettings"
  "queryError failingEnv = None"
  "windowStats failingEnv m i = busyStats"
  "todayStats failingEnv i = busyStats"
  "yesterdayStats failingEnv i = busyStats"
  "getCircuitState failingEnv i = Closed"
  "updateError failingEnv i = (if i = 1 then Some ''update failed'' else None)"
  "logError failingEnv = None"
  by (simp_all add: failingEnv_def sampleEnv_def)

lemma logFailingEnv_simps:
  "settingsResult logFailingEnv = Inr sampleSettings"
  "queryError logFailingEnv = None"
  "windowStats logFailingEnv m i = busyStats"
  "getCircuitState logFailingEnv i = Closed"
  "updateError logFailingEnv i = None"
  "logError logFailingEnv = Some ''log failed''"
  by (simp_all add: logFailingEnv_def sampleEnv_def)

lemma MAB_generateDecisions_nth:
  "i < length ps \<Longrightarrow>
   MAB_generateDecisions ps cfg ! i =
     MAB_decide (foldl (\<lambda>sum p. sum + requests (weighted (metrics p))) 0 ps) cfg (ps ! i)"
  by (simp add: MAB_generateDecisions_def Let_def)

lemma MAB_decide_fields:
  "mab_providerId (MAB_decide n cfg p) = id_p p"
  "currentWeight (MAB_decide n cfg p) = weight p"
  "currentPriority (MAB_decide n cfg p) = priority p"
  by (simp_all add: MAB_decide_def Let_def)

lemma MAB_decide_sample:
  "suggestedWeight (MAB_decide n sampleConfig (analyticsOf 1 0 0 (Some 10) (Some 0) Closed)) = 1"
  "currentWeight (MAB_decide n sampleConfig (analyticsOf 1 0 0 (Some 10) (Some 0) Closed)) = 0"
  "suggestedWeight (MAB_decide n sampleConfig (analyticsOf 1 20 5 (Some 10) (Some 5) Closed)) = 21"
  "currentWeight (MAB_decide n sampleConfig (analyticsOf 1 20 5 (Some 10) (Some 5) Closed)) = 20"
  unfolding MAB_decide_def calculateAdjustment_def Let_def analyticsOf_simps sampleConfig_simps
  by (simp_all add: dblm f_zero)

lemma MAB_decide_promoted:
  "suggestedWeight (MAB_decide n sampleConfig (analyticsOf i 20 5 (Some 10) (Some 3) Closed)) = 21"
  "suggestedPriority (MAB_decide n sampleConfig (analyticsOf i 20 5 (Some 10) (Some 3) Closed)) = 2"
  "suggestedWeight (MAB_decide n sampleConfig (analyticsOf i 10 0 None None Closed)) = 11"
  "suggestedPriority (MAB_decide n sampleConfig (analyticsOf i 10 0 None None Closed)) = 0"
  unfolding MAB_decide_def calculateAdjustment_def Let_def analyticsOf_simps sampleConfig_simps
  by (simp_all add: dblm f_zero)

lemma convert_fields:
  "providerId (convertToScheduleDecision mab) = mab_providerId mab"
  "weight (beforeState (convertToScheduleDecision mab)) = currentWeight mab"
  "priority (beforeState (convertToScheduleDecision mab)) = currentPriority mab"
  "weight (afterState (convertToScheduleDecision mab)) = suggestedWeight mab"
  "priority (afterState (convertToScheduleDecision mab)) = suggestedPriority mab"
  "confidence (convertToScheduleDecision mab) = mab_confidence mab"
  by (simp_all add: convertToScheduleDecision_def Let_def)

lemma realtime_update_fields:
  "decisionUpdate (convertToScheduleDecision mab) =
     \<lparr>upd_weight = Some (suggestedWeight mab), upd_priority = Some (suggestedPriority mab),
      upd_base_weight = Some (currentWeight mab),
      upd_base_priority = Some (currentPriority mab)\<rparr>"
  by (simp add: decisionUpdate_def convertToScheduleDecision_def Let_def)

lemma convert_action_sample:
  "action (convertToScheduleDecision
      (MAB_decide n sampleConfig (analyticsOf i 20 5 (Some 10) (Some 3) Closed))) = promote"
proof -
  have "requests (weighted (mab_metrics
          (MAB_decide n sampleConfig (analyticsOf i 20 5 (Some 10) (Some 3) Closed)))) = 60"
    "\<not> isExploration (MAB_decide n sampleConfig (analyticsOf i 20 5 (Some 10) (Some 3) Closed))"
    by (simp_all add: MAB_decide_def Let_def analyticsOf_simps sampleConfig_simps)
  then show ?thesis
    by (simp add: convertToScheduleDecision_def Let_def MAB_decide_promoted MAB_decide_fields
        analyticsOf_simps)
qed

lemma applyUpdate_providerOf:
  "applyUpdate \<lparr>upd_weight = Some w', upd_priority = Some q', upd_base_weight = Some b,
       upd_base_priority = Some c\<rparr> (providerOf i w q bw bq)
     = providerOf i w' q' (Some b) (Some c)"
  by (simp add: applyUpdate_def providerOf_def)

lemma applyStrategy_sample:
  "action (applyStrategy ruleProvider ruleAnalytics Open Auto_getConfig) = circuit_penalty"
  "weight (afterState (applyStrategy ruleProvider ruleAnalytics Open Auto_getConfig)) = 7"
  "priority (afterState (applyStrategy ruleProvider ruleAnalytics Open Auto_getConfig)) = 2"
  unfolding applyStrategy_def Let_def ruleProvider_def ruleAnalytics_def
  by (simp_all add: dblm)

lemma penalty_values:
  "max 1 \<lfloor>fmul (real_of_int 10) (fl (7 / 10))\<rfloor> = 7"
  "max 1 \<lfloor>fmul (real_of_int 90) (fl (7 / 10))\<rfloor> = 62"
  by (simp_all add: dblm)

lemma applyStrategy_promote:
  "action (applyStrategy (providerOf i 10 0 None None)
      (ruleAnalyticsOf (providerOf i 10 0 None None)) Closed cfg) = promote"
  "confidence (applyStrategy (providerOf i 10 0 None None)
      (ruleAnalyticsOf (providerOf i 10 0 None None)) Closed cfg) = 80"
  "providerId (applyStrategy (providerOf i 10 0 None None)
      (ruleAnalyticsOf (providerOf i 10 0 None None)) Closed cfg) = i"
  "decisionUpdate (applyStrategy (providerOf i 10 0 None None)
      (ruleAnalyticsOf (providerOf i 10 0 None None)) Closed cfg)
     = \<lparr>upd_weight = Some 12, upd_priority = Some 0, upd_base_weight = Some 10,
        upd_base_priority = Some 0\<rparr>"
  unfolding applyStrategy_def Let_def decisionUpdate_def providerOf_simps ruleAnalyticsOf_def
  by (simp_all add: dblm)

lemma busyToday_score: "calculateScore busyToday = 100"
  by (rule calculateScore_zero) (simp_all add: busyToday_def)

lemma busy_confidence: "calculateConfidence 20 10 = 80"
  by (simp add: calculateConfidence_def dbl)

section \<open>Properties of the MAB policy\<close>

lemma clamp_closer:
  fixes w s :: int
  assumes "1 \<le> w" "w \<le> 100"
  shows "\<bar>max 1 (min 100 s) - w\<bar> \<le> \<bar>s - w\<bar>"
  using assms by (simp add: max_def min_def)

lemma rate_limit_core:
  fixes w t M :: int
  assumes "1 \<le> w" "w \<le> 100" "0 \<le> M"
  shows "\<bar>max 1 (min 100 (if \<bar>t - w\<bar> > M then w + sgn (t - w) * M else t)) - w\<bar> \<le> M"
proof -
  define s where "s = (if \<bar>t - w\<bar> > M then w + sgn (t - w) * M else t)"
  have "\<bar>s - w\<bar> \<le> M"
  proof (cases "\<bar>t - w\<bar> > M")
    case True
    then have "s - w = sgn (t - w) * M" by (simp add: s_def)
    then have "\<bar>s - w\<bar> = \<bar>sgn (t - w)\<bar> * \<bar>M\<bar>" by (simp add: abs_mult)
    also have "\<dots> \<le> 1 * \<bar>M\<bar>" by (intro mult_right_mono) (simp_all add: sgn_if)
    finally show ?thesis using assms(3) by simp
  next
    case False
    then show ?thesis by (simp add: s_def)
  qed
  moreover have "\<bar>max 1 (min 100 s) - w\<bar> \<le> \<bar>s - w\<bar>"
    using assms(1,2) by (rule clamp_closer)
  ultimately show ?thesis unfolding s_def by linarith
qed

lemma clamp_distance:
  fixes w s :: int
  assumes "1 \<le> w" "w \<le> 100"
  shows "\<bar>max 1 (min 100 s) - w\<bar> \<le> 99"
  using assms by (auto simp: max_def min_def)

text \<open>
  The percentage of a weight, computed in doubles, is never above its exact floor as long
  as the exact value stays below 100: the two roundings move the product by less than one
  hundredth, and an exact value that is not an integer is at least one hundredth below the
  next integer.
\<close>

lemma percent_floor_le:
  fixes w p :: int
  assumes w: "0 \<le> w" and p: "0 \<le> p"
    and small: "real_of_int w * real_of_int p / 100 < 100"
  shows "\<lfloor>fmul (real_of_int w) (fdiv (real_of_int p) 100)\<rfloor>
           \<le> \<lfloor>real_of_int w * real_of_int p / 100\<rfloor>"
proof -
  define v where "v = real_of_int w * real_of_int p / 100"
  define a where "a = fdiv (real_of_int p) 100"
  define c where "c = fmul (real_of_int w) a"
  define u :: real where "u = 1 + 1 / 2 ^ 53"
  define n :: int where "n = \<lfloor>v\<rfloor>"
  have v0: "0 \<le> v" using w p by (simp add: v_def)
  have u1: "1 \<le> u" by (simp add: u_def)
  have a0: "0 \<le> a" unfolding a_def fdiv_def using p by (intro fl_nonneg) simp
  have "a \<le> real_of_int p / 100 * u"
    unfolding a_def fdiv_def u_def using p by (intro fl_upper_error) simp
  then have "real_of_int w * a \<le> real_of_int w * (real_of_int p / 100 * u)"
    using w by (intro mult_left_mono) simp_all
  then have wa: "real_of_int w * a \<le> v * u" by (simp add: v_def)
  have "c \<le> real_of_int w * a * u"
    unfolding c_def fmul_def u_def using w a0 by (intro fl_upper_error) simp
  also have "\<dots> \<le> v * u * u" using wa u1 by (intro mult_right_mono) simp_all
  finally have cu: "c \<le> v * (u * u)" by (simp add: mult.assoc)
  have "u * u - 1 < 1 / 10000" by (simp add: u_def)
  then have "v * (u * u - 1) \<le> 100 * (u * u - 1)"
    using small u1 v0 unfolding v_def [symmetric]
    by (intro mult_right_mono) (simp_all add: u_def)
  then have "v * (u * u) \<le> v + 100 * (u * u - 1)" by (simp add: algebra_simps)
  also have "\<dots> < v + 1 / 100" using \<open>u * u - 1 < 1 / 10000\<close> by simp
  finally have cv: "c < v + 1 / 100" using cu by linarith
  have "v < real_of_int (n + 1)" unfolding n_def by linarith
  then have "real_of_int (w * p) < real_of_int (100 * (n + 1))"
    by (simp add: v_def)
  then have "w * p < 100 * (n + 1)" by (simp only: of_int_less_iff)
  then have "w * p + 1 \<le> 100 * (n + 1)" by (simp only: zless_iff_Suc_zadd add1_zle_eq)
  then have "w * p \<le> 100 * n + 99" by (simp add: algebra_simps)
  then have "real_of_int (w * p) \<le> real_of_int (100 * n + 99)" by (simp only: of_int_le_iff)
  then have "v \<le> real_of_int n + 99 / 100" by (simp add: v_def)
  with cv have "c < real_of_int (n + 1)" by simp
  then have "\<lfloor>c\<rfloor> < n + 1" by (simp only: floor_less_iff)
  then show ?thesis unfolding c_def a_def n_def v_def by simp
qed

lemma percent_floor_nonneg:
  fixes w p :: int
  assumes "0 \<le> w" "0 \<le> p"
  shows "0 \<le> \<lfloor>fmul (real_of_int w) (fdiv (real_of_int p) 100)\<rfloor>"
proof -
  have "0 \<le> fdiv (real_of_int p) 100" unfolding fdiv_def using assms by (intro fl_nonneg) simp
  then have "0 \<le> fmul (real_of_int w) (fdiv (real_of_int p) 100)"
    unfolding fmul_def using assms by (intro fl_nonneg) simp
  then show ?thesis by simp
qed

lemma calculateAdjustment_closed_form:
  assumes c: "circuitState p = Closed"
    and r: "minSampleSize cfg \<le> int (requests (weighted (metrics p)))"
  shows "\<exists>t. fst (calculateAdjustment p u bw bp cfg) =
     max 1 (min 100
       (if \<bar>t - weight p\<bar>
            > \<lfloor>fmul (real_of_int (weight p))
                 (fdiv (real_of_int (maxWeightAdjustmentPercent cfg)) 100)\<rfloor>
        then weight p + sgn (t - weight p)
            * \<lfloor>fmul (real_of_int (weight p))
                 (fdiv (real_of_int (maxWeightAdjustmentPercent cfg)) 100)\<rfloor>
        else t))"
proof -
  have r': "\<not> int (requests (weighted (metrics p))) < minSampleSize cfg"
    using r by simp
  show ?thesis
    unfolding calculateAdjustment_def Let_def
    by (simp only: c r' CircuitState.distinct if_False fst_conv) blast
qed

lemma calculateAdjustment_rate_limit:
  assumes c: "circuitState p = Closed"
    and r: "minSampleSize cfg \<le> int (requests (weighted (metrics p)))"
    and w: "1 \<le> weight p" "weight p \<le> 100"
    and m: "0 \<le> maxWeightAdjustmentPercent cfg"
  shows "\<bar>fst (calculateAdjustment p u bw bp cfg) - weight p\<bar>
           \<le> \<lfloor>real_of_int (weight p) * real_of_int (maxWeightAdjustmentPercent cfg) / 100\<rfloor>"
proof -
  define M where "M = \<lfloor>fmul (real_of_int (weight p))
                         (fdiv (real_of_int (maxWeightAdjustmentPercent cfg)) 100)\<rfloor>"
  define v where "v = real_of_int (weight p) * real_of_int (maxWeightAdjustmentPercent cfg) / 100"
  have M0: "0 \<le> M" unfolding M_def using w m by (intro percent_floor_nonneg) simp_all
  from calculateAdjustment_closed_form [OF c r, of u bw bp]
  obtain t where
    e: "fst (calculateAdjustment p u bw bp cfg)
       = max 1 (min 100 (if \<bar>t - weight p\<bar> > M then weight p + sgn (t - weight p) * M else t))"
    unfolding M_def by blast
  have dM: "\<bar>fst (calculateAdjustment p u bw bp cfg) - weight p\<bar> \<le> M"
    unfolding e using rate_limit_core [OF w M0, of t] by simp
  have d99: "\<bar>fst (calculateAdjustment p u bw bp cfg) - weight p\<bar> \<le> 99"
    unfolding e using w by (rule clamp_distance)
  show ?thesis
  proof (cases "v < 100")
    case True
    then have "M \<le> \<lfloor>v\<rfloor>"
      unfolding M_def v_def using w m by (intro percent_floor_le) simp_all
    with dM show ?thesis unfolding v_def by linarith
  next
    case False
    then have "100 \<le> \<lfloor>v\<rfloor>" by (simp add: le_floor_iff)
    with d99 show ?thesis unfolding v_def by linarith
  qed
qed

text \<open>
  C2, as amended. For a provider with a closed circuit and at least \<open>minSampleSize\<close>
  fused requests whose current weight lies in 1..100, and a non-negative
  \<open>maxWeightAdjustmentPercent\<close>, the suggested weight differs from the current weight by
  at most \<open>floor (currentWeight * maxWeightAdjustmentPercent / 100)\<close>.
\<close>

theorem MAB_rate_limit:
  assumes "i < length ps"
    and "circuitState (ps ! i) = Closed"
    and "minSampleSize cfg \<le> int (requests (weighted (metrics (ps ! i))))"
    and "1 \<le> weight (ps ! i)" "weight (ps ! i) \<le> 100"
    and "0 \<le> maxWeightAdjustmentPercent cfg"
  shows "currentWeight (MAB_generateDecisions ps cfg ! i) = weight (ps ! i)
     \<and> \<bar>suggestedWeight (MAB_generateDecisions ps cfg ! i)
          - currentWeight (MAB_generateDecisions ps cfg ! i)\<bar>
        \<le> \<lfloor>real_of_int (currentWeight (MAB_generateDecisions ps cfg ! i))
             * real_of_int (maxWeightAdjustmentPercent cfg) / 100\<rfloor>"
proof -
  let ?d = "MAB_generateDecisions ps cfg ! i"
  have cw: "currentWeight ?d = weight (ps ! i)"
    using assms(1) by (simp add: MAB_generateDecisions_nth MAB_decide_def Let_def)
  have "\<exists>u bw bp. suggestedWeight ?d = fst (calculateAdjustment (ps ! i) u bw bp cfg)"
    using assms(1) by (simp add: MAB_generateDecisions_nth MAB_decide_def Let_def) blast
  then obtain u bw bp where
    sw: "suggestedWeight ?d = fst (calculateAdjustment (ps ! i) u bw bp cfg)" by blast
  show ?thesis
    unfolding cw sw
    using calculateAdjustment_rate_limit [OF assms(2-6), of u bw bp] by simp
qed

theorem MAB_rate_limit_witness:
  "0 < length [analyticsOf 1 20 5 (Some 10) (Some 5) Closed]
   \<and> suggestedWeight
        (MAB_generateDecisions [analyticsOf 1 20 5 (Some 10) (Some 5) Closed] sampleConfig ! 0) = 21
   \<and> \<bar>suggestedWeight
          (MAB_generateDecisions [analyticsOf 1 20 5 (Some 10) (Some 5) Closed] sampleConfig ! 0)
        - currentWeight
          (MAB_generateDecisions [analyticsOf 1 20 5 (Some 10) (Some 5) Closed] sampleConfig ! 0)\<bar>
       \<le> 2"
proof -
  let ?p = "analyticsOf 1 20 5 (Some 10) (Some 5) Closed"
  let ?d = "MAB_generateDecisions [?p] sampleConfig ! 0"
  have h: "0 < length [?p]" "circuitState ([?p] ! 0) = Closed"
    "minSampleSize sampleConfig \<le> int (requests (weighted (metrics ([?p] ! 0))))"
    "1 \<le> weight ([?p] ! 0)" "weight ([?p] ! 0) \<le> 100"
    "0 \<le> maxWeightAdjustmentPercent sampleConfig"
    by (simp_all add: analyticsOf_simps sampleConfig_simps)
  have v: "suggestedWeight ?d = 21"
    unfolding MAB_generateDecisions_def Let_def list.map nth_Cons_0 MAB_decide_sample by simp
  have cw: "currentWeight ?d = 20"
    unfolding MAB_generateDecisions_def Let_def list.map nth_Cons_0 MAB_decide_sample by simp
  have b: "\<lfloor>real_of_int 20 * real_of_int (maxWeightAdjustmentPercent sampleConfig) / 100\<rfloor> = 2"
    by (simp add: sampleConfig_simps)
  from MAB_rate_limit [OF h]
  have "\<bar>suggestedWeight ?d - currentWeight ?d\<bar>
          \<le> \<lfloor>real_of_int (currentWeight ?d)
             * real_of_int (maxWeightAdjustmentPercent sampleConfig) / 100\<rfloor>"
    by (rule conjunct2)
  then have "\<bar>suggestedWeight ?d - currentWeight ?d\<bar> \<le> 2"
    unfolding cw b .
  with h(1) v show ?thesis by blast
qed

text \<open>
  The bound fails for a current weight outside 1..100: the final clamp to 1..100 moves a
  provider of weight 0 (the weight the open-circuit branch writes) to weight 1, while the
  bound is 0.
\<close>

theorem MAB_rate_limit_counterexample:
  "circuitState (analyticsOf 1 0 0 (Some 10) (Some 0) Closed) = Closed
   \<and> minSampleSize sampleConfig
        \<le> int (requests (weighted (metrics (analyticsOf 1 0 0 (Some 10) (Some 0) Closed))))
   \<and> \<not> \<bar>suggestedWeight
            (MAB_generateDecisions [analyticsOf 1 0 0 (Some 10) (Some 0) Closed] sampleConfig ! 0)
          - currentWeight
            (MAB_generateDecisions [analyticsOf 1 0 0 (Some 10) (Some 0) Closed] sampleConfig ! 0)\<bar>
        \<le> \<lfloor>real_of_int (currentWeight
              (MAB_generateDecisions [analyticsOf 1 0 0 (Some 10) (Some 0) Closed] sampleConfig ! 0))
             * real_of_int (maxWeightAdjustmentPercent sampleConfig) / 100\<rfloor>"
  unfolding MAB_generateDecisions_def Let_def list.map nth_Cons_0 MAB_decide_sample
    analyticsOf_simps sampleConfig_simps
  by simp

section \<open>Open circuits under both policies\<close>

text \<open>
  C3, as amended. With an open circuit the MAB policy suggests weight 0 and priority 999.
  The rule policy's circuit-penalty path (open circuit, confidence at least 50) suggests
  \<open>max 1 (floor (weight * 0.7))\<close>, the product taken in doubles (62 at weight 90), and
  priority + 2; with a confidence below 50 it maintains weight and priority.
\<close>

theorem open_circuit_suggestions:
  "(i < length ps \<and> circuitState (ps ! i) = Open \<longrightarrow>
      suggestedWeight (MAB_generateDecisions ps cfg ! i) = 0
      \<and> suggestedPriority (MAB_generateDecisions ps cfg ! i) = 999)
   \<and> (cs = Open \<and> 50 \<le> pa_confidence a \<longrightarrow>
      action (applyStrategy prov a cs sc) = circuit_penalty
      \<and> weight (afterState (applyStrategy prov a cs sc))
           = max 1 \<lfloor>fmul (real_of_int (weight prov)) (fl (7 / 10))\<rfloor>
      \<and> priority (afterState (applyStrategy prov a cs sc)) = priority prov + 2)
   \<and> (cs = Open \<and> pa_confidence a < 50 \<longrightarrow>
      action (applyStrategy prov a cs sc) = maintain
      \<and> weight (afterState (applyStrategy prov a cs sc)) = weight prov
      \<and> priority (afterState (applyStrategy prov a cs sc)) = priority prov)"
proof (intro conjI impI)
  assume h: "i < length ps \<and> circuitState (ps ! i) = Open"
  then have adj: "calculateAdjustment (ps ! i) u bw bp cfg = (0, 999)" for u bw bp
    by (simp add: calculateAdjustment_def Let_def)
  from h show "suggestedWeight (MAB_generateDecisions ps cfg ! i) = 0"
    by (simp add: MAB_generateDecisions_nth MAB_decide_def Let_def adj)
  from h show "suggestedPriority (MAB_generateDecisions ps cfg ! i) = 999"
    by (simp add: MAB_generateDecisions_nth MAB_decide_def Let_def adj)
next
  assume h: "cs = Open \<and> 50 \<le> pa_confidence a"
  then show "action (applyStrategy prov a cs sc) = circuit_penalty"
    by (simp add: applyStrategy_def Let_def)
  from h show "weight (afterState (applyStrategy prov a cs sc))
           = max 1 \<lfloor>fmul (real_of_int (weight prov)) (fl (7 / 10))\<rfloor>"
    by (simp add: applyStrategy_def Let_def)
  from h show "priority (afterState (applyStrategy prov a cs sc)) = priority prov + 2"
    by (simp add: applyStrategy_def Let_def)
next
  assume h: "cs = Open \<and> pa_confidence a < 50"
  then show "action (applyStrategy prov a cs sc) = maintain"
    by (simp add: applyStrategy_def Let_def)
  from h show "weight (afterState (applyStrategy prov a cs sc)) = weight prov"
    by (simp add: applyStrategy_def Let_def)
  from h show "priority (afterState (applyStrategy prov a cs sc)) = priority prov"
    by (simp add: applyStrategy_def Let_def)
qed

theorem open_circuit_suggestions_witness:
  "0 < length [analyticsOf 1 10 0 None None Open]
   \<and> circuitState ([analyticsOf 1 10 0 None None Open] ! 0) = Open
   \<and> suggestedWeight (MAB_generateDecisions [analyticsOf 1 10 0 None None Open] sampleConfig ! 0) = 0
   \<and> suggestedPriority (MAB_generateDecisions [analyticsOf 1 10 0 None None Open] sampleConfig ! 0)
       = 999
   \<and> 50 \<le> pa_confidence ruleAnalytics
   \<and> action (applyStrategy ruleProvider ruleAnalytics Open Auto_getConfig) = circuit_penalty
   \<and> weight (afterState (applyStrategy ruleProvider ruleAnalytics Open Auto_getConfig)) = 7
   \<and> priority (afterState (applyStrategy ruleProvider ruleAnalytics Open Auto_getConfig)) = 2
   \<and> weight (afterState
        (applyStrategy (ruleProvider\<lparr>weight := 90\<rparr>) ruleAnalytics Open Auto_getConfig)) = 62
   \<and> pa_confidence (ruleAnalytics\<lparr>pa_confidence := 20\<rparr>) < 50
   \<and> action (applyStrategy ruleProvider (ruleAnalytics\<lparr>pa_confidence := 20\<rparr>) Open Auto_getConfig)
       = maintain
   \<and> weight (afterState
        (applyStrategy ruleProvider (ruleAnalytics\<lparr>pa_confidence := 20\<rparr>) Open Auto_getConfig)) = 10"
proof -
  have h1: "0 < length [analyticsOf 1 10 0 None None Open]
     \<and> circuitState ([analyticsOf 1 10 0 None None Open] ! 0) = Open"
    by (simp add: analyticsOf_simps)
  have h2: "Open = Open \<and> 50 \<le> pa_confidence ruleAnalytics"
    by (simp add: ruleAnalytics_def)
  have h3: "Open = Open \<and> pa_confidence (ruleAnalytics\<lparr>pa_confidence := 20\<rparr>) < 50"
    by simp
  have v: "max 1 \<lfloor>fmul (real_of_int (weight ruleProvider)) (fl (7 / 10))\<rfloor> = 7"
    "max 1 \<lfloor>fmul (real_of_int (weight (ruleProvider\<lparr>weight := 90\<rparr>))) (fl (7 / 10))\<rfloor> = 62"
    "priority ruleProvider + 2 = 2" "weight ruleProvider = 10"
    using penalty_values by (simp_all add: ruleProvider_def)
  note a = open_circuit_suggestions [where i = 0 and ps = "[analyticsOf 1 10 0 None None Open]"
      and cfg = sampleConfig and cs = Open and a = ruleAnalytics and prov = ruleProvider
      and sc = Auto_getConfig]
  note b = open_circuit_suggestions [where i = 0 and ps = "[analyticsOf 1 10 0 None None Open]"
      and cfg = sampleConfig and cs = Open and a = "ruleAnalytics\<lparr>pa_confidence := 20\<rparr>"
      and prov = ruleProvider and sc = Auto_getConfig]
  note c = open_circuit_suggestions [where i = 0 and ps = "[analyticsOf 1 10 0 None None Open]"
      and cfg = sampleConfig and cs = Open and a = ruleAnalytics
      and prov = "ruleProvider\<lparr>weight := 90\<rparr>" and sc = Auto_getConfig]
  from a h1 h2 have ra: "suggestedWeight
        (MAB_generateDecisions [analyticsOf 1 10 0 None None Open] sampleConfig ! 0) = 0
     \<and> suggestedPriority
        (MAB_generateDecisions [analyticsOf 1 10 0 None None Open] sampleConfig ! 0) = 999
     \<and> action (applyStrategy ruleProvider ruleAnalytics Open Auto_getConfig) = circuit_penalty
     \<and> weight (afterState (applyStrategy ruleProvider ruleAnalytics Open Auto_getConfig)) = 7
     \<and> priority (afterState (applyStrategy ruleProvider ruleAnalytics Open Auto_getConfig)) = 2"
    unfolding v(1,2,3) by blast
  from c h2 have rc: "weight (afterState
        (applyStrategy (ruleProvider\<lparr>weight := 90\<rparr>) ruleAnalytics Open Auto_getConfig)) = 62"
    unfolding v(1,2,3) by blast
  from b h3 have rb: "action
        (applyStrategy ruleProvider (ruleAnalytics\<lparr>pa_confidence := 20\<rparr>) Open Auto_getConfig)
       = maintain
     \<and> weight (afterState
        (applyStrategy ruleProvider (ruleAnalytics\<lparr>pa_confidence := 20\<rparr>) Open Auto_getConfig)) = 10"
    unfolding v(4) by blast
  from h1 h2 h3 ra rb rc show ?thesis by blast
qed

text \<open>
  On the rule policy's circuit-penalty path a provider of weight 10 and priority 0 gets
  weight 7 and priority 2, not 0 and 999.
\<close>

theorem open_circuit_rule_counterexample:
  "action (applyStrategy ruleProvider ruleAnalytics Open Auto_getConfig) = circuit_penalty
   \<and> \<not> (weight (afterState (applyStrategy ruleProvider ruleAnalytics Open Auto_getConfig)) = 0
        \<and> priority (afterState (applyStrategy ruleProvider ruleAnalytics Open Auto_getConfig)) = 999)"
  unfolding applyStrategy_sample by simp

section \<open>What a cycle reads and writes\<close>

lemma selectEnabled_one:
  "selectEnabled \<lparr>providers = [providerOf i w q bw bq], scheduleLogs = ls\<rparr>
     = [providerOf i w q bw bq]"
  by (simp add: selectEnabled_def providerOf_simps)

lemma selectEnabled_two:
  "selectEnabled \<lparr>providers = [providerOf i w q bw bq, providerOf j w q bw' bq'], scheduleLogs = ls\<rparr>
     = [providerOf i w q bw bq, providerOf j w q bw' bq']"
  by (simp add: selectEnabled_def providerOf_simps)

lemma oneProvider_enabled:
  "selectEnabled oneProvider = [providerOf 1 20 5 (Some 10) (Some 3)]"
  unfolding oneProvider_def by (rule selectEnabled_one)

lemma twoProviders_enabled:
  "selectEnabled twoProviders = [providerOf 1 10 0 None None, providerOf 2 10 0 None None]"
  unfolding twoProviders_def by (rule selectEnabled_two)

lemma analytics_sample:
  assumes "queryError env = None" "\<And>m i. windowStats env m i = busyStats"
    "\<And>i. getCircuitState env i = Closed"
  shows "getProviderMultiWindowAnalytics env a b c s
     = Inr (map (\<lambda>p. analyticsOf (id_p p) (weight p) (priority p) (baseWeight p)
                       (basePriority p) Closed) (selectEnabled s))"
  by (simp add: getProviderMultiWindowAnalytics_def assms windowOf_busy analyticsOf_def)

lemma getProviderAnalytics_sample:
  assumes "queryError env = None" "\<And>i. todayStats env i = busyStats"
    "\<And>i. yesterdayStats env i = busyStats" "\<And>i. getCircuitState env i = Closed"
  shows "getProviderAnalytics env s = Inr (map ruleAnalyticsOf (selectEnabled s))"
proof -
  have w: "requests busyWindow = 20" "avgResponseTime busyWindow = 0" "errorRate busyWindow = 0"
    by (simp_all add: busyWindow_def)
  have m: "\<lparr>todayRequests = 20, todayAvgResponseTime = 0, todayErrorRate = 0,
     yesterdayRequests = 20, yesterdayAvgResponseTime = 0, yesterdayErrorRate = 0\<rparr> = busyToday"
    by (simp add: busyToday_def)
  show ?thesis
    unfolding getProviderAnalytics_def Let_def assms windowOf_busy w m
    by (simp add: busyToday_score busy_confidence ruleAnalyticsOf_def)
qed

lemma analytics_nonempty:
  assumes "queryError env = None"
  shows "\<exists>ps. getProviderMultiWindowAnalytics env a b c s = Inr ps
            \<and> length ps = length (selectEnabled s)"
  by (simp add: getProviderMultiWindowAnalytics_def assms)

lemma createScheduleLog_providers:
  "providers (snd (createScheduleLog env entry s)) = providers s"
  by (simp add: createScheduleLog_def split: option.splits)

lemma Realtime_logExecution_providers:
  "providers (Realtime_logExecution env ds sm dryRun s) = providers s"
  by (simp add: Realtime_logExecution_def createScheduleLog_def split: option.splits)

lemma Realtime_logExecution_logs:
  "scheduleLogs (Realtime_logExecution env ds sm dryRun s)
     = (case logError env of
          None \<Rightarrow> scheduleLogs s @ [scheduleLogOf ''realtime-auto'' dryRun ds sm]
        | Some e \<Rightarrow> scheduleLogs s)"
  by (simp add: Realtime_logExecution_def createScheduleLog_def split: option.splits)

lemma updateProvider_logs:
  "scheduleLogs (snd (updateProvider env i u s)) = scheduleLogs s"
  by (simp add: updateProvider_def split: option.splits)

lemma Realtime_updateAll_logs:
  "scheduleLogs (Realtime_updateAll env ds s) = scheduleLogs s"
proof (induction ds arbitrary: s)
  case Nil
  then show ?case by simp
next
  case (Cons d ds)
  obtain r s' where u: "updateProvider env (providerId d) (decisionUpdate d) s = (r, s')"
    by (cases "updateProvider env (providerId d) (decisionUpdate d) s")
  then have "scheduleLogs s' = scheduleLogs s"
    using updateProvider_logs [of env "providerId d" "decisionUpdate d" s] by simp
  with Cons u show ?case by (cases r) simp_all
qed

lemma Realtime_applyDecisions_logs:
  "scheduleLogs (Realtime_applyDecisions env ds s) = scheduleLogs s"
  by (simp add: Realtime_applyDecisions_def Realtime_updateAll_logs)

lemma Auto_updateAll_logs:
  "scheduleLogs (snd (Auto_updateAll env ds s)) = scheduleLogs s"
proof (induction ds arbitrary: s)
  case Nil
  then show ?case by simp
next
  case (Cons d ds)
  obtain r s' where u: "updateProvider env (providerId d) (decisionUpdate d) s = (r, s')"
    by (cases "updateProvider env (providerId d) (decisionUpdate d) s")
  then have "scheduleLogs s' = scheduleLogs s"
    using updateProvider_logs [of env "providerId d" "decisionUpdate d" s] by simp
  with Cons u show ?case by (cases r) simp_all
qed

lemma Auto_applyDecisions_logs:
  "scheduleLogs (snd (Auto_applyDecisions env ds s)) = scheduleLogs s"
  by (simp add: Auto_applyDecisions_def Auto_updateAll_logs)

lemma Realtime_execute_result:
  "fst (Realtime_execute env cfg dryRun s) = r \<Longrightarrow>
   (\<exists>e. r = Realtime_failed e)
   \<or> r = \<lparr>ok = True, totalProviders = 0, affectedProviders = 0, decisions = [],
            summary = zeroSummary, error = None\<rparr>
   \<or> (\<exists>mabs n. r = \<lparr>ok = True, totalProviders = n,
            affectedProviders =
              affectedCount (Realtime_calculateSummary (convertToScheduleDecisions mabs)),
            decisions = convertToScheduleDecisions mabs,
            summary = Realtime_calculateSummary (convertToScheduleDecisions mabs),
            error = None\<rparr>)"
  unfolding Realtime_execute_def Let_def
  by (auto split: sum.splits if_splits)

lemma Realtime_execute_cycle:
  assumes "settingsResult env = Inr st" "queryError env = None" "selectEnabled s \<noteq> []"
  shows "\<exists>ds sm. Realtime_execute env cfg dryRun s
     = (\<lparr>ok = True, totalProviders = length (selectEnabled s),
          affectedProviders = affectedCount sm, decisions = ds, summary = sm, error = None\<rparr>,
        Realtime_logExecution env ds sm dryRun
          (if dryRun then s else Realtime_applyDecisions env ds s))"
proof -
  from analytics_nonempty [OF assms(2)] obtain ps where
    ps: "getProviderMultiWindowAnalytics env
           (case shortTermWindowMinutes st of Some n \<Rightarrow> n | None \<Rightarrow> 60)
           (case mediumTermWindowMinutes st of Some n \<Rightarrow> n | None \<Rightarrow> 360)
           (case longTermWindowMinutes st of Some n \<Rightarrow> n | None \<Rightarrow> 1440) s = Inr ps"
    and len: "length ps = length (selectEnabled s)"
    by blast
  from len assms(3) have ne: "length ps \<noteq> 0" by simp
  show ?thesis
    unfolding Realtime_execute_def Let_def assms(1) sum.case ps
    using ne len by (cases dryRun) simp_all
qed

lemma Realtime_execute_idle:
  assumes "settingsResult env = Inr st" "queryError env = None" "selectEnabled s = []"
  shows "Realtime_execute env cfg dryRun s
     = (\<lparr>ok = True, totalProviders = 0, affectedProviders = 0, decisions = [],
          summary = zeroSummary, error = None\<rparr>, s)"
  unfolding Realtime_execute_def Let_def assms(1) sum.case
  by (simp add: getProviderMultiWindowAnalytics_def assms)

lemma Realtime_execute_providers:
  assumes "settingsResult env = Inr st" "queryError env = None"
    "\<And>m i. windowStats env m i = busyStats" "\<And>i. getCircuitState env i = Closed"
    "selectEnabled s \<noteq> []"
  shows "providers (snd (Realtime_execute env cfg False s))
     = providers (Realtime_applyDecisions env
         (convertToScheduleDecisions (MAB_generateDecisions
            (map (\<lambda>p. analyticsOf (id_p p) (weight p) (priority p) (baseWeight p)
                       (basePriority p) Closed) (selectEnabled s)) cfg)) s)"
  unfolding Realtime_execute_def Let_def
  by (simp add: assms analytics_sample Realtime_logExecution_providers)

lemma realtime_cycle_oneProvider:
  assumes "settingsResult env = Inr st" "queryError env = None"
    "\<And>m i. windowStats env m i = busyStats" "\<And>i. getCircuitState env i = Closed"
    "\<And>i. updateError env i = None"
  shows "providers (snd (Realtime_execute env sampleConfig False oneProvider))
     = [providerOf 1 21 2 (Some 20) (Some 5)]"
proof -
  have "providers (snd (Realtime_execute env sampleConfig False oneProvider))
     = providers (Realtime_applyDecisions env
         (convertToScheduleDecisions (MAB_generateDecisions
            (map (\<lambda>p. analyticsOf (id_p p) (weight p) (priority p) (baseWeight p)
                       (basePriority p) Closed) (selectEnabled oneProvider)) sampleConfig))
         oneProvider)"
    by (rule Realtime_execute_providers) (simp_all add: assms oneProvider_enabled)
  also have "\<dots> = [providerOf 1 21 2 (Some 20) (Some 5)]"
    unfolding oneProvider_enabled list.map providerOf_simps MAB_generateDecisions_def Let_def
      convertToScheduleDecisions_def Realtime_applyDecisions_def
    by (simp add: convert_fields MAB_decide_fields MAB_decide_promoted analyticsOf_simps
        updateProvider_def assms realtime_update_fields applyUpdate_providerOf
        providerOf_simps oneProvider_def)
  finally show ?thesis .
qed

lemma Auto_generateDecisions_two:
  assumes "queryError env = None" "\<And>i. todayStats env i = busyStats"
    "\<And>i. yesterdayStats env i = busyStats" "\<And>i. getCircuitState env i = Closed"
  shows "Auto_generateDecisions env cfg twoProviders
     = Inr [applyStrategy (providerOf 1 10 0 None None)
              (ruleAnalyticsOf (providerOf 1 10 0 None None)) Closed cfg,
            applyStrategy (providerOf 2 10 0 None None)
              (ruleAnalyticsOf (providerOf 2 10 0 None None)) Closed cfg]"
proof -
  have f: "findProviderList env 1000 0 twoProviders
             = Inr [providerOf 1 10 0 None None, providerOf 2 10 0 None None]"
    by (simp add: findProviderList_def assms twoProviders_def providerOf_simps)
  have i: "id_p (ruleAnalyticsOf p) = id_p p" for p
    by (simp add: ruleAnalyticsOf_def)
  show ?thesis
    unfolding Auto_generateDecisions_def Let_def f getProviderAnalytics_sample [OF assms]
      twoProviders_enabled
    by (simp add: i providerOf_simps assms)
qed

section \<open>Action classification of the realtime engine\<close>

lemma convert_action:
  "action (convertToScheduleDecision mab) \<in> {explore, promote, demote, maintain}"
  by (simp add: convertToScheduleDecision_def Let_def)

lemma Realtime_count_fields:
  "promoted (foldl Realtime_count acc ds)
     = promoted acc + length (filter (\<lambda>d. action d = promote) ds)"
  "demoted (foldl Realtime_count acc ds)
     = demoted acc + length (filter (\<lambda>d. action d = demote) ds)"
  "recovered (foldl Realtime_count acc ds)
     = recovered acc + length (filter (\<lambda>d. action d = recover) ds)"
  "circuitOpen (foldl Realtime_count acc ds)
     = circuitOpen acc + length (filter (\<lambda>d. action d = circuit_penalty) ds)"
  by (induction ds arbitrary: acc;
      simp add: Realtime_count_def split: ScheduleAction.splits)+

lemma convert_never_recover:
  "action (convertToScheduleDecision mab) \<noteq> recover"
  "action (convertToScheduleDecision mab) \<noteq> circuit_penalty"
  by (simp_all add: convertToScheduleDecision_def Let_def)

lemma no_recover_after_convert:
  "filter (\<lambda>d. action d = recover) (convertToScheduleDecisions mabs) = []"
  "filter (\<lambda>d. action d = circuit_penalty) (convertToScheduleDecisions mabs) = []"
  by (simp_all add: convertToScheduleDecisions_def filter_empty_conv convert_never_recover)

lemma Realtime_summary_after_convert:
  "recovered (Realtime_calculateSummary (convertToScheduleDecisions mabs)) = 0"
  "circuitOpen (Realtime_calculateSummary (convertToScheduleDecisions mabs)) = 0"
  by (simp_all add: Realtime_calculateSummary_def Realtime_count_fields
      no_recover_after_convert zeroSummary_def)

text \<open>
  C10. The realtime engine classifies every MAB decision as explore, promote, demote or
  maintain; hence the summary of every realtime cycle has \<open>recovered = 0\<close> and
  \<open>circuitOpen = 0\<close>, and its number of affected providers is promoted + demoted.
\<close>

theorem realtime_actions:
  "(\<forall>d \<in> set (convertToScheduleDecisions mabs).
       action d \<in> {explore, promote, demote, maintain})
   \<and> recovered (summary (fst (Realtime_execute env cfg dryRun s))) = 0
   \<and> circuitOpen (summary (fst (Realtime_execute env cfg dryRun s))) = 0
   \<and> affectedProviders (fst (Realtime_execute env cfg dryRun s))
       = promoted (summary (fst (Realtime_execute env cfg dryRun s)))
         + demoted (summary (fst (Realtime_execute env cfg dryRun s)))"
proof -
  have a: "\<forall>d \<in> set (convertToScheduleDecisions mabs).
       action d \<in> {explore, promote, demote, maintain}"
    using convert_action by (auto simp: convertToScheduleDecisions_def)
  define r where "r = fst (Realtime_execute env cfg dryRun s)"
  have "recovered (summary r) = 0 \<and> circuitOpen (summary r) = 0
        \<and> affectedProviders r = promoted (summary r) + demoted (summary r)"
    using Realtime_execute_result [of env cfg dryRun s r]
    by (auto simp: r_def [symmetric] Realtime_failed_def zeroSummary_def affectedCount_def
        Realtime_summary_after_convert)
  with a show ?thesis unfolding r_def by blast
qed

theorem realtime_actions_witness:
  "convertToScheduleDecision
      (MAB_decide 60 sampleConfig (analyticsOf 1 20 5 (Some 10) (Some 3) Closed))
     \<in> set (convertToScheduleDecisions
          [MAB_decide 60 sampleConfig (analyticsOf 1 20 5 (Some 10) (Some 3) Closed)])
   \<and> action (convertToScheduleDecision
        (MAB_decide 60 sampleConfig (analyticsOf 1 20 5 (Some 10) (Some 3) Closed)))
       \<in> {explore, promote, demote, maintain}
   \<and> action (convertToScheduleDecision
        (MAB_decide 60 sampleConfig (analyticsOf 1 20 5 (Some 10) (Some 3) Closed))) = promote
   \<and> recovered (summary (fst (Realtime_execute sampleEnv sampleConfig False oneProvider))) = 0
   \<and> circuitOpen (summary (fst (Realtime_execute sampleEnv sampleConfig False oneProvider))) = 0
   \<and> affectedProviders (fst (Realtime_execute sampleEnv sampleConfig False oneProvider))
       = promoted (summary (fst (Realtime_execute sampleEnv sampleConfig False oneProvider)))
         + demoted (summary (fst (Realtime_execute sampleEnv sampleConfig False oneProvider)))"
proof -
  let ?m = "MAB_decide 60 sampleConfig (analyticsOf 1 20 5 (Some 10) (Some 3) Closed)"
  have m: "convertToScheduleDecision ?m \<in> set (convertToScheduleDecisions [?m])"
    by (simp add: convertToScheduleDecisions_def)
  note t = realtime_actions [where mabs = "[?m]" and env = sampleEnv and cfg = sampleConfig
      and dryRun = False and s = oneProvider]
  from t m have "action (convertToScheduleDecision ?m) \<in> {explore, promote, demote, maintain}"
    by blast
  with t m convert_action_sample [of 60 1] show ?thesis by blast
qed

section \<open>Dry runs\<close>

lemma Realtime_dryRun_providers:
  "providers (snd (Realtime_execute env cfg True s)) = providers s"
  unfolding Realtime_execute_def Let_def
  by (simp add: Realtime_logExecution_providers split: sum.splits)

lemma Auto_dryRun_providers:
  "providers (snd (Auto_execute env True who config s)) = providers s"
proof -
  have "providers (snd (Auto_logExecution env ds sm who True s)) = providers s" for ds sm
    by (simp add: Auto_logExecution_def createScheduleLog_providers)
  then show ?thesis
    unfolding Auto_execute_def Let_def
    by (auto split: sum.splits prod.splits) (metis snd_conv)+
qed

text \<open>
  C4. A cycle with \<open>dryRun = true\<close> leaves the provider table as it was (weight,
  priority, baseWeight and basePriority of every provider), under the realtime engine and
  under the rule scheduler, whatever the configuration, the providers and the circuit
  states.
\<close>

theorem dryRun_writes_no_provider:
  "providers (snd (Realtime_execute env cfg True s)) = providers s
   \<and> providers (snd (Auto_execute env True who config s)) = providers s"
  using Realtime_dryRun_providers Auto_dryRun_providers by blast

theorem dryRun_writes_no_provider_witness:
  "providers (snd (Realtime_execute sampleEnv sampleConfig True twoProviders))
     = [providerOf 1 10 0 None None, providerOf 2 10 0 None None]
   \<and> providers (snd (Auto_execute sampleEnv True ''manual'' None twoProviders))
     = [providerOf 1 10 0 None None, providerOf 2 10 0 None None]"
  using dryRun_writes_no_provider [of sampleEnv sampleConfig twoProviders "''manual''" None]
  by (simp add: twoProviders_def)

section \<open>Baseline seeding\<close>

text \<open>
  C1 claims that the baseline is written once: the first cycle that changes a provider sets
  \<open>baseWeight\<close> and \<open>basePriority\<close> to the values before the change, and no later
  cycle overwrites them. The realtime engine takes the current weight and priority as the
  baseline of every decision, so the test that guards the baseline columns always succeeds
  and every committed update overwrites them: a provider with weight 20, priority 5,
  \<open>baseWeight = 10\<close> and \<open>basePriority = 3\<close> leaves one cycle with
  \<open>baseWeight = 20\<close> and \<open>basePriority = 5\<close>.
\<close>

theorem realtime_overwrites_baseline:
  "providers oneProvider = [providerOf 1 20 5 (Some 10) (Some 3)]
   \<and> providers (snd (Realtime_execute sampleEnv sampleConfig False oneProvider))
       = [providerOf 1 21 2 (Some 20) (Some 5)]"
  using realtime_cycle_oneProvider [of sampleEnv sampleSettings]
  by (simp add: sampleEnv_simps oneProvider_def)

section \<open>Failing provider updates\<close>

lemma Auto_execute_failing:
  "Auto_execute failingEnv False ''manual'' None twoProviders
     = (Auto_failed ''update failed'', twoProviders)"
  unfolding Auto_execute_def Let_def
  by (simp add: Auto_generateDecisions_two failingEnv_simps Auto_applyDecisions_def
      applyStrategy_promote updateProvider_def)

lemma Auto_execute_working:
  "providers (snd (Auto_execute sampleEnv False ''manual'' None twoProviders))
     = [providerOf 1 12 0 (Some 10) (Some 0), providerOf 2 12 0 (Some 10) (Some 0)]"
proof -
  have g: "Auto_generateDecisions sampleEnv Auto_getConfig twoProviders
     = Inr [applyStrategy (providerOf 1 10 0 None None)
              (ruleAnalyticsOf (providerOf 1 10 0 None None)) Closed Auto_getConfig,
            applyStrategy (providerOf 2 10 0 None None)
              (ruleAnalyticsOf (providerOf 2 10 0 None None)) Closed Auto_getConfig]"
    by (rule Auto_generateDecisions_two) (simp_all add: sampleEnv_simps)
  show ?thesis
    unfolding Auto_execute_def Let_def option.case g
    by (simp add: sampleEnv_simps Auto_applyDecisions_def applyStrategy_promote
        updateProvider_def Auto_logExecution_def createScheduleLog_def twoProviders_def
        applyUpdate_providerOf providerOf_simps)
qed

lemma Realtime_execute_failing:
  "providers (snd (Realtime_execute failingEnv sampleConfig False twoProviders))
     = [providerOf 1 10 0 None None, providerOf 2 11 0 (Some 10) (Some 0)]"
proof -
  have "providers (snd (Realtime_execute failingEnv sampleConfig False twoProviders))
     = providers (Realtime_applyDecisions failingEnv
         (convertToScheduleDecisions (MAB_generateDecisions
            (map (\<lambda>p. analyticsOf (id_p p) (weight p) (priority p) (baseWeight p)
                       (basePriority p) Closed) (selectEnabled twoProviders)) sampleConfig))
         twoProviders)"
    by (rule Realtime_execute_providers) (simp_all add: failingEnv_simps twoProviders_enabled)
  also have "\<dots> = [providerOf 1 10 0 None None, providerOf 2 11 0 (Some 10) (Some 0)]"
    unfolding twoProviders_enabled list.map providerOf_simps MAB_generateDecisions_def Let_def
      convertToScheduleDecisions_def Realtime_applyDecisions_def
    by (simp add: convert_fields MAB_decide_fields MAB_decide_promoted analyticsOf_simps
        updateProvider_def failingEnv_simps realtime_update_fields applyUpdate_def
        providerOf_def twoProviders_def)
  finally show ?thesis .
qed

text \<open>
  C5 claims that a failing update of one provider is skipped and the remaining providers
  are still updated, under both schedulers. With the update of provider 1 failing, the rule
  scheduler stops at the failure: provider 2 keeps weight 10 (it gets 12 when no update
  fails), no log is written and the cycle reports \<open>ok = false\<close>. The realtime engine
  on the same store skips provider 1 and updates provider 2.
\<close>

theorem rule_scheduler_aborts_on_update_failure:
  "Auto_execute failingEnv False ''manual'' None twoProviders
     = (Auto_failed ''update failed'', twoProviders)
   \<and> providers (snd (Auto_execute sampleEnv False ''manual'' None twoProviders))
       = [providerOf 1 12 0 (Some 10) (Some 0), providerOf 2 12 0 (Some 10) (Some 0)]
   \<and> providers (snd (Realtime_execute failingEnv sampleConfig False twoProviders))
       = [providerOf 1 10 0 None None, providerOf 2 11 0 (Some 10) (Some 0)]"
  using Auto_execute_failing Auto_execute_working Realtime_execute_failing by blast

section \<open>The schedule log\<close>

lemma Auto_execute_logged:
  assumes g: "Auto_generateDecisions env (case config of Some c \<Rightarrow> c | None \<Rightarrow> Auto_getConfig) s
                = Inr ds"
    and a: "dryRun \<or> ds = [] \<or> fst (Auto_applyDecisions env ds s) = Inr ()"
    and l: "logError env = None"
  shows "ok (fst (Auto_execute env dryRun who config s))
    \<and> decisions (fst (Auto_execute env dryRun who config s)) = ds
    \<and> scheduleLogs (snd (Auto_execute env dryRun who config s))
        = scheduleLogs s @ [scheduleLogOf who dryRun ds (Auto_calculateSummary ds)]"
proof -
  define applied where
    "applied = (if \<not> dryRun \<and> length ds > 0 then Auto_applyDecisions env ds s else (Inr (), s))"
  obtain s1 where ap: "applied = (Inr (), s1)" and s1: "scheduleLogs s1 = scheduleLogs s"
  proof (cases "\<not> dryRun \<and> length ds > 0")
    case True
    with a have "fst (Auto_applyDecisions env ds s) = Inr ()" by auto
    then have "applied = (Inr (), snd (Auto_applyDecisions env ds s))"
      using True by (simp add: applied_def prod_eq_iff)
    then show ?thesis using that Auto_applyDecisions_logs by blast
  next
    case False
    then have "applied = (Inr (), s)" unfolding applied_def by auto
    then show ?thesis using that by blast
  qed
  have "Auto_execute env dryRun who config s =
      (\<lparr>ok = True, totalProviders = length ds,
         affectedProviders = affectedCount (Auto_calculateSummary ds), decisions = ds,
         summary = Auto_calculateSummary ds, error = None,
         logId = Some (Suc (length (scheduleLogs s1))),
         analyzedProviders = length (filter (\<lambda>d. confidence d \<ge> 50) ds)\<rparr>,
       s1\<lparr>scheduleLogs := scheduleLogs s1
              @ [scheduleLogOf who dryRun ds (Auto_calculateSummary ds)]\<rparr>)"
    unfolding Auto_execute_def Let_def g sum.case applied_def [symmetric] ap
    by (simp add: Auto_logExecution_def createScheduleLog_def l)
  then show ?thesis by (simp add: s1)
qed

text \<open>
  C6, as amended. A realtime cycle that finds at least one enabled provider, dry run or
  not, returns \<open>ok = true\<close> and writes one log entry for its decisions and summary; when
  that write fails nothing is logged, the cycle still returns \<open>ok = true\<close> and the
  provider updates stay as committed. A realtime cycle that finds no enabled provider
  returns \<open>ok = true\<close> and leaves the store as it was. A cycle of the rule scheduler
  whose decisions are generated and applied without failure and whose log write succeeds,
  dry run or not, returns \<open>ok = true\<close> and appends exactly one log entry.
\<close>

theorem schedule_log_per_cycle:
  "(settingsResult env = Inr st \<and> queryError env = None \<and> selectEnabled s \<noteq> [] \<longrightarrow>
      ok (fst (Realtime_execute env cfg dryRun s))
      \<and> providers (snd (Realtime_execute env cfg dryRun s))
          = providers (if dryRun then s
               else Realtime_applyDecisions env
                      (decisions (fst (Realtime_execute env cfg dryRun s))) s)
      \<and> scheduleLogs (snd (Realtime_execute env cfg dryRun s))
          = (case logError env of
               None \<Rightarrow> scheduleLogs s
                 @ [scheduleLogOf ''realtime-auto'' dryRun
                      (decisions (fst (Realtime_execute env cfg dryRun s)))
                      (summary (fst (Realtime_execute env cfg dryRun s)))]
             | Some e \<Rightarrow> scheduleLogs s))
   \<and> (settingsResult env = Inr st \<and> queryError env = None \<and> selectEnabled s = [] \<longrightarrow>
      ok (fst (Realtime_execute env cfg dryRun s))
      \<and> snd (Realtime_execute env cfg dryRun s) = s)
   \<and> (Auto_generateDecisions env (case config of Some c \<Rightarrow> c | None \<Rightarrow> Auto_getConfig) s
         = Inr ds
       \<and> (dryRun \<or> ds = [] \<or> fst (Auto_applyDecisions env ds s) = Inr ())
       \<and> logError env = None \<longrightarrow>
      ok (fst (Auto_execute env dryRun who config s))
      \<and> decisions (fst (Auto_execute env dryRun who config s)) = ds
      \<and> scheduleLogs (snd (Auto_execute env dryRun who config s))
          = scheduleLogs s @ [scheduleLogOf who dryRun ds (Auto_calculateSummary ds)])"
proof (intro conjI impI)
  assume h: "settingsResult env = Inr st \<and> queryError env = None \<and> selectEnabled s \<noteq> []"
  then obtain ds sm where
    e: "Realtime_execute env cfg dryRun s
     = (\<lparr>ok = True, totalProviders = length (selectEnabled s),
          affectedProviders = affectedCount sm, decisions = ds, summary = sm, error = None\<rparr>,
        Realtime_logExecution env ds sm dryRun
          (if dryRun then s else Realtime_applyDecisions env ds s))"
    using Realtime_execute_cycle [of env st s cfg dryRun] by blast
  show "ok (fst (Realtime_execute env cfg dryRun s))"
    unfolding e by simp
  show "providers (snd (Realtime_execute env cfg dryRun s))
          = providers (if dryRun then s
               else Realtime_applyDecisions env
                      (decisions (fst (Realtime_execute env cfg dryRun s))) s)"
    unfolding e by (simp add: Realtime_logExecution_providers)
  show "scheduleLogs (snd (Realtime_execute env cfg dryRun s))
          = (case logError env of
               None \<Rightarrow> scheduleLogs s
                 @ [scheduleLogOf ''realtime-auto'' dryRun
                      (decisions (fst (Realtime_execute env cfg dryRun s)))
                      (summary (fst (Realtime_execute env cfg dryRun s)))]
             | Some e \<Rightarrow> scheduleLogs s)"
    unfolding e
    by (simp add: Realtime_logExecution_logs Realtime_applyDecisions_logs split: option.splits)
next
  assume h: "settingsResult env = Inr st \<and> queryError env = None \<and> selectEnabled s = []"
  then have e: "Realtime_execute env cfg dryRun s
     = (\<lparr>ok = True, totalProviders = 0, affectedProviders = 0, decisions = [],
          summary = zeroSummary, error = None\<rparr>, s)"
    using Realtime_execute_idle [of env st s cfg dryRun] by blast
  show "ok (fst (Realtime_execute env cfg dryRun s))" unfolding e by simp
  show "snd (Realtime_execute env cfg dryRun s) = s" unfolding e by simp
next
  assume h: "Auto_generateDecisions env (case config of Some c \<Rightarrow> c | None \<Rightarrow> Auto_getConfig) s
         = Inr ds
       \<and> (dryRun \<or> ds = [] \<or> fst (Auto_applyDecisions env ds s) = Inr ())
       \<and> logError env = None"
  then have r: "ok (fst (Auto_execute env dryRun who config s))
    \<and> decisions (fst (Auto_execute env dryRun who config s)) = ds
    \<and> scheduleLogs (snd (Auto_execute env dryRun who config s))
        = scheduleLogs s @ [scheduleLogOf who dryRun ds (Auto_calculateSummary ds)]"
    using Auto_execute_logged [of env config s ds dryRun who] by blast
  from r show "ok (fst (Auto_execute env dryRun who config s))" by blast
  from r show "decisions (fst (Auto_execute env dryRun who config s)) = ds" by blast
  from r show "scheduleLogs (snd (Auto_execute env dryRun who config s))
          = scheduleLogs s @ [scheduleLogOf who dryRun ds (Auto_calculateSummary ds)]" by blast
qed

theorem schedule_log_per_cycle_witness:
  "selectEnabled oneProvider \<noteq> []
   \<and> ok (fst (Realtime_execute sampleEnv sampleConfig True oneProvider))
   \<and> length (scheduleLogs (snd (Realtime_execute sampleEnv sampleConfig True oneProvider))) = 1
   \<and> ok (fst (Realtime_execute logFailingEnv sampleConfig False oneProvider))
   \<and> scheduleLogs (snd (Realtime_execute logFailingEnv sampleConfig False oneProvider)) = []
   \<and> providers (snd (Realtime_execute logFailingEnv sampleConfig False oneProvider))
       = [providerOf 1 21 2 (Some 20) (Some 5)]
   \<and> selectEnabled noProviders = []
   \<and> snd (Realtime_execute sampleEnv sampleConfig True noProviders) = noProviders
   \<and> ok (fst (Auto_execute sampleEnv True ''manual'' None twoProviders))
   \<and> length (scheduleLogs (snd (Auto_execute sampleEnv True ''manual'' None twoProviders))) = 1"
proof -
  have ne: "selectEnabled oneProvider \<noteq> []" by (simp add: oneProvider_enabled)
  have e: "selectEnabled noProviders = []" by (simp add: selectEnabled_def noProviders_def)
  have l0: "scheduleLogs oneProvider = []" "scheduleLogs twoProviders = []"
    by (simp_all add: oneProvider_def twoProviders_def)
  let ?ds = "[applyStrategy (providerOf 1 10 0 None None)
              (ruleAnalyticsOf (providerOf 1 10 0 None None)) Closed Auto_getConfig,
            applyStrategy (providerOf 2 10 0 None None)
              (ruleAnalyticsOf (providerOf 2 10 0 None None)) Closed Auto_getConfig]"
  have g: "Auto_generateDecisions sampleEnv (case None of Some c \<Rightarrow> c | None \<Rightarrow> Auto_getConfig)
       twoProviders = Inr ?ds"
    unfolding option.case
    by (rule Auto_generateDecisions_two) (simp_all add: sampleEnv_simps)
  note a = schedule_log_per_cycle [where env = sampleEnv and st = sampleSettings
      and s = oneProvider and cfg = sampleConfig and dryRun = True and config = None
      and who = "''manual''"]
  note b = schedule_log_per_cycle [where env = logFailingEnv and st = sampleSettings
      and s = oneProvider and cfg = sampleConfig and dryRun = False and config = None
      and who = "''manual''"]
  note c = schedule_log_per_cycle [where env = sampleEnv and st = sampleSettings
      and s = noProviders and cfg = sampleConfig and dryRun = True and config = None
      and who = "''manual''"]
  note d = schedule_log_per_cycle [where env = sampleEnv and st = sampleSettings
      and s = twoProviders and cfg = sampleConfig and dryRun = True and config = None
      and who = "''manual''" and ds = ?ds]
  have r1: "ok (fst (Realtime_execute sampleEnv sampleConfig True oneProvider))
      \<and> length (scheduleLogs (snd (Realtime_execute sampleEnv sampleConfig True oneProvider))) = 1"
    using a ne by (simp add: sampleEnv_simps l0)
  have r2: "ok (fst (Realtime_execute logFailingEnv sampleConfig False oneProvider))
      \<and> scheduleLogs (snd (Realtime_execute logFailingEnv sampleConfig False oneProvider)) = []"
    using b ne by (simp add: logFailingEnv_simps l0)
  have r3: "providers (snd (Realtime_execute logFailingEnv sampleConfig False oneProvider))
       = [providerOf 1 21 2 (Some 20) (Some 5)]"
    by (rule realtime_cycle_oneProvider) (simp_all add: logFailingEnv_simps)
  have r4: "snd (Realtime_execute sampleEnv sampleConfig True noProviders) = noProviders"
    using c e by (simp add: sampleEnv_simps)
  have r5: "ok (fst (Auto_execute sampleEnv True ''manual'' None twoProviders))
      \<and> length (scheduleLogs (snd (Auto_execute sampleEnv True ''manual'' None twoProviders))) = 1"
    using d g by (simp add: sampleEnv_simps l0)
  from ne e r1 r2 r3 r4 r5 show ?thesis by blast
qed

text \<open>
  A realtime cycle over a store without enabled providers writes no log entry.
\<close>

theorem schedule_log_counterexample:
  "ok (fst (Realtime_execute sampleEnv sampleConfig True noProviders))
   \<and> scheduleLogs (snd (Realtime_execute sampleEnv sampleConfig True noProviders))
       = scheduleLogs noProviders
   \<and> \<not> length (scheduleLogs (snd (Realtime_execute sampleEnv sampleConfig True noProviders)))
        = length (scheduleLogs noProviders) + 1"
proof -
  have "selectEnabled noProviders = []"
    by (simp add: selectEnabled_def noProviders_def)
  then have "Realtime_execute sampleEnv sampleConfig True noProviders
     = (\<lparr>ok = True, totalProviders = 0, affectedProviders = 0, decisions = [],
          summary = zeroSummary, error = None\<rparr>, noProviders)"
    by (intro Realtime_execute_idle) (simp_all add: sampleEnv_simps)
  then show ?thesis by simp
qed

end
